theory Spec2Isabelle
  imports Main "HOL-Library.Word"
begin

section \<open>Data model of the device trace offloader\<close>

text \<open>
  The embedding follows \<^verbatim>\<open>xdp/profile/device/device_trace_offload.cpp\<close>.
  All \<^verbatim>\<open>uint64_t\<close> members are 64-bit words (arithmetic wraps), the FIFO packet
  counter is a 32-bit word. Calls into the device interface, the trace logger (the sink),
  the messaging layer and the user-event API that have an effect are recorded, in order,
  in the field \<open>calls\<close>; device queries that only return a value (word count, capability
  flags, monitor properties) are inputs of the model and are not recorded.
\<close>

type_synonym u64 = "64 word"
type_synonym u32 = "32 word"

text \<open>A decoded trace result; its payload is opaque to the offloader.\<close>

type_synonym trace_result = nat

datatype OffloadThreadStatus = IDLE | RUNNING | STOPPING | STOPPED

datatype OffloadThreadType = TRACE | CLOCK_TRAIN

text \<open>The member \<^verbatim>\<open>m_read_trace\<close>: which reader the constructor bound.\<close>

datatype reader = Read_trace_fifo | Read_trace_s2mm

datatype call =
    ClockTraining bool
  | ReadTrace
  | ProcessTraceData "trace_result list"
  | EndProcessTraceData "trace_result list"
  | SyncTraceBuf u64 u64 u64
  | ParseTraceData u64
  | MessageSendWarning string
  | UserEventMark string
  | AllocTraceBuf u64
  | InitTS2MM u64 u64 bool
  | ResetTS2MM
  | FreeTraceBuf u64

text \<open>
  Constants of the build that the source file uses and does not define: the two macros
  come from the header \<^verbatim>\<open>device_trace_offload.h\<close>, the flag \<open>WIN32\<close> stands for the
  preprocessor symbol \<^verbatim>\<open>_WIN32\<close>, and \<open>ticks_per_ms\<close> is the number of ticks of
  \<^verbatim>\<open>std::chrono::system_clock\<close> in one millisecond. They are parameters of the model.
\<close>

record build =
  TRACE_PACKET_SIZE :: u64
  TS2MM_MIN_READ_SIZE :: u64
  WIN32 :: bool
  ticks_per_ms :: int

text \<open>
  The answers of the device interface that do not change during a session. The helpers
  \<^verbatim>\<open>has_fifo\<close> and \<^verbatim>\<open>has_ts2mm\<close> of the header are taken to return the device's
  \<open>hasFIFO\<close> and \<open>hasTs2mm\<close>.
  \<open>fifo_size\<close> is \<^verbatim>\<open>GetDeviceTraceBufferSize(getMonitorProperties(XCL_PERF_MON_FIFO, 0))\<close>;
  \<open>allocTraceBuf\<close> maps the requested size to the buffer handle, 0 when the allocation fails.
\<close>

record DeviceIntf =
  hasFIFO :: bool
  hasTs2mm :: bool
  supportsCircBuf :: bool
  fifo_size :: u32
  allocTraceBuf :: "u64 \<Rightarrow> u64"
  getDeviceAddr :: "u64 \<Rightarrow> u64"

text \<open>
  What the device answers during one read cycle: the value of \<^verbatim>\<open>getWordCountTs2mm\<close>,
  the result of \<^verbatim>\<open>syncTraceBuf\<close> (\<open>None\<close> for a null host pointer, otherwise the
  results that \<^verbatim>\<open>parseTraceData\<close> decodes from the synced bytes), and the successive
  results of \<^verbatim>\<open>readTrace\<close> on the FIFO.
\<close>

record cycle_in =
  wordcount :: u64
  host_buf :: "trace_result list option"
  fifo_reads :: "trace_result list list"

text \<open>
  The object state: the members of class \<^verbatim>\<open>DeviceTraceOffload\<close>. The member
  \<open>offload_thread\<close> is the \<^verbatim>\<open>std::thread\<close> object: \<open>None\<close> while it owns no thread
  (as default-constructed), \<open>Some type\<close> once a worker thread with that body was assigned
  to it. Nothing but the destructor joins it, so from then on it stays joinable.
\<close>

record DeviceTraceOffload =
  sleep_interval_ms :: u64
  m_trbuf_alloc_sz :: u64
  status :: OffloadThreadStatus
  offload_thread :: "OffloadThreadType option"
  m_read_trace :: reader
  m_initialized :: bool
  m_prev_clk_train_time :: int
  m_force_clk_train :: bool
  m_trace_vector :: "trace_result list"
  m_trbuf :: u64
  m_trbuf_addr :: u64
  m_trbuf_sz :: u64
  m_trbuf_offset :: u64
  m_wordcount_old :: u64
  m_trbuf_full :: bool
  trbuf_offload_done :: bool
  m_rollover_count :: u64
  m_use_circ_buf :: bool
  m_circ_buf_min_rate :: u64
  m_circ_buf_cur_rate :: u64
  calls :: "call list"

section \<open>Construction\<close>

text \<open>
  Modelled from the spec: the in-class initial values of the members, which are declared
  in the header \<^verbatim>\<open>device_trace_offload.h\<close> (not part of the sources at hand). The spec
  gives: the status starts at \<open>IDLE\<close>; the force flag of clock training is set at session
  start; latches are clear, the window is empty and the rollover counter is zero in a
  fresh session; the session is not initialised and single-pass until initialisation
  decides otherwise. The minimum rate for circular mode is a parameter.
\<close>

definition header_defaults :: "u64 \<Rightarrow> DeviceTraceOffload" where
  "header_defaults min_rate =
     \<lparr> sleep_interval_ms = 0, m_trbuf_alloc_sz = 0, status = IDLE, offload_thread = None,
       m_read_trace = Read_trace_s2mm, m_initialized = False, m_prev_clk_train_time = 0,
       m_force_clk_train = True, m_trace_vector = [], m_trbuf = 0, m_trbuf_addr = 0,
       m_trbuf_sz = 0, m_trbuf_offset = 0, m_wordcount_old = 0, m_trbuf_full = False,
       trbuf_offload_done = False, m_rollover_count = 0, m_use_circ_buf = False,
       m_circ_buf_min_rate = min_rate, m_circ_buf_cur_rate = 0, calls = [] \<rparr>"

text \<open>
  The constructor: stores the poll interval and the allocation size, binds the reader
  (the FIFO reader when the device has a FIFO, the stream reader otherwise) and takes the
  current time as the time of the last clock training.
\<close>

definition DeviceTraceOffload_ctor ::
  "DeviceIntf \<Rightarrow> u64 \<Rightarrow> u64 \<Rightarrow> u64 \<Rightarrow> int \<Rightarrow> DeviceTraceOffload" where
  "DeviceTraceOffload_ctor dev sleep_ms trbuf_sz min_rate now =
     (header_defaults min_rate)
       \<lparr> sleep_interval_ms := sleep_ms, m_trbuf_alloc_sz := trbuf_sz,
         m_read_trace := (if hasFIFO dev then Read_trace_fifo else Read_trace_s2mm),
         m_prev_clk_train_time := now \<rparr>"

section \<open>Status operations\<close>

definition should_continue :: "DeviceTraceOffload \<Rightarrow> bool" where
  "should_continue s = (status s = RUNNING)"

text \<open>
  Assigning a new thread to a \<^verbatim>\<open>std::thread\<close> that is still joinable calls
  \<^verbatim>\<open>std::terminate\<close>: the process ends there.
\<close>

datatype error = Terminate

text \<open>
  \<^verbatim>\<open>start_offload\<close>: returns at once while \<open>RUNNING\<close>; otherwise sets \<open>RUNNING\<close> and
  assigns to \<open>offload_thread\<close> the worker thread for the requested body, which terminates
  the process when \<open>offload_thread\<close> already owns a thread.
\<close>

definition start_offload ::
  "OffloadThreadType \<Rightarrow> DeviceTraceOffload \<Rightarrow> error + DeviceTraceOffload" where
  "start_offload type s =
     (if status s = RUNNING then Inr s
      else
        let s1 = s\<lparr>status := RUNNING\<rparr>
        in (case offload_thread s1 of
              Some owned \<Rightarrow> Inl Terminate
            | None \<Rightarrow>
                (case type of
                   TRACE \<Rightarrow> Inr (s1\<lparr>offload_thread := Some TRACE\<rparr>)
                 | CLOCK_TRAIN \<Rightarrow> Inr (s1\<lparr>offload_thread := Some CLOCK_TRAIN\<rparr>))))"

definition stop_offload :: "DeviceTraceOffload \<Rightarrow> DeviceTraceOffload" where
  "stop_offload s = (if status s = STOPPED then s else s\<lparr>status := STOPPING\<rparr>)"

definition offload_finished :: "DeviceTraceOffload \<Rightarrow> DeviceTraceOffload" where
  "offload_finished s = (if status s = STOPPED then s else s\<lparr>status := STOPPED\<rparr>)"

text \<open>
  A call of the controller thread on the public interface, and a sequence of them, which
  ends where the process is terminated.
\<close>

datatype request = Start OffloadThreadType | Stop

fun apply_request :: "request \<Rightarrow> DeviceTraceOffload \<Rightarrow> error + DeviceTraceOffload" where
  "apply_request (Start type) s = start_offload type s"
| "apply_request Stop s = Inr (stop_offload s)"

fun apply_requests :: "request list \<Rightarrow> DeviceTraceOffload \<Rightarrow> error + DeviceTraceOffload" where
  "apply_requests [] s = Inr s"
| "apply_requests (r # rs) s =
     (case apply_request r s of Inl e \<Rightarrow> Inl e | Inr s1 \<Rightarrow> apply_requests rs s1)"

section \<open>Clock training\<close>

text \<open>
  \<^verbatim>\<open>duration_cast<milliseconds>\<close> of a difference of time points given in clock
  ticks: integer division that truncates towards zero.
\<close>

definition duration_cast_ms :: "int \<Rightarrow> int \<Rightarrow> int" where
  "duration_cast_ms tpm d = (if 0 \<le> d then d div tpm else - ((- d) div tpm))"

definition train_clock :: "build \<Rightarrow> int \<Rightarrow> DeviceTraceOffload \<Rightarrow> DeviceTraceOffload" where
  "train_clock b now s =
     (let milliseconds = duration_cast_ms (ticks_per_ms b) (now - m_prev_clk_train_time s);
          enough_time_passed = (if 500 \<le> milliseconds then True else False);
          s1 = (if enough_time_passed \<or> m_force_clk_train s
                then s\<lparr>calls := calls s @ [ClockTraining (m_force_clk_train s)],
                       m_prev_clk_train_time := now\<rparr>
                else s)
      in s1\<lparr>m_force_clk_train := False\<rparr>)"

section \<open>The FIFO reader\<close>

text \<open>
  The drain loop of \<^verbatim>\<open>read_trace_fifo\<close>: each pass clears the vector, reads the FIFO
  into it, hands it to the logger and adds its size to the 32-bit packet count; the loop
  ends with the first empty read. The device's answers are the list; when the list ends
  before an empty read was seen the loop has not returned, which is \<open>None\<close>.
\<close>

fun fifo_drain ::
  "trace_result list list \<Rightarrow> u32 \<Rightarrow> DeviceTraceOffload \<Rightarrow> (u32 \<times> DeviceTraceOffload) option" where
  "fifo_drain [] num_packets s = None"
| "fifo_drain (chunk # rest) num_packets s =
     (let s1 = s\<lparr>m_trace_vector := chunk,
                 calls := calls s @ [ReadTrace, ProcessTraceData chunk]\<rparr>;
          n1 = num_packets + of_nat (length chunk)
      in if length chunk \<noteq> 0 then fifo_drain rest n1 s1 else Some (n1, s1))"

text \<open>With \<^verbatim>\<open>_WIN32\<close> defined the body runs once, without the loop.\<close>

definition fifo_read_once ::
  "trace_result list list \<Rightarrow> u32 \<Rightarrow> DeviceTraceOffload \<Rightarrow> (u32 \<times> DeviceTraceOffload) option" where
  "fifo_read_once reads num_packets s =
     (case reads of
        [] \<Rightarrow> None
      | chunk # rest \<Rightarrow>
          Some (num_packets + of_nat (length chunk),
                s\<lparr>m_trace_vector := chunk,
                  calls := calls s @ [ReadTrace, ProcessTraceData chunk]\<rparr>))"

definition read_trace_fifo ::
  "build \<Rightarrow> DeviceIntf \<Rightarrow> cycle_in \<Rightarrow> bool \<Rightarrow> DeviceTraceOffload \<Rightarrow> DeviceTraceOffload option" where
  "read_trace_fifo b dev inp force s =
     (if m_trbuf_full s then Some s
      else (case (if WIN32 b then fifo_read_once (fifo_reads inp) 0 s
                  else fifo_drain (fifo_reads inp) 0 s) of
              None \<Rightarrow> None
            | Some (num_packets, s1) \<Rightarrow>
                Some (if \<not> m_trbuf_full s1
                      then (if fifo_size dev \<le> num_packets then s1\<lparr>m_trbuf_full := True\<rparr> else s1)
                      else s1)))"

section \<open>The stream (TS2MM) reader\<close>

definition config_s2mm_reader ::
  "build \<Rightarrow> u64 \<Rightarrow> DeviceTraceOffload \<Rightarrow> bool \<times> DeviceTraceOffload" where
  "config_s2mm_reader b wordCount s =
     (if trbuf_offload_done s then (False, s)
      else
        let bytes_written = wordCount * TRACE_PACKET_SIZE b;
            bytes_read = m_rollover_count s * m_trbuf_alloc_sz s + m_trbuf_sz s
        in if bytes_read + m_trbuf_alloc_sz s < bytes_written then
             (False,
              stop_offload
                (s\<lparr>m_trbuf_offset := m_trbuf_sz s, trbuf_offload_done := True,
                   calls := calls s @ [MessageSendWarning ''XRT'',
                                       UserEventMark ''Trace Buffer Overwrite Detected'']\<rparr>))
           else
             let s1 = s\<lparr>m_trbuf_offset := m_trbuf_sz s\<rparr>
             in if m_trbuf_offset s1 = m_trbuf_alloc_sz s1 \<and> \<not> m_use_circ_buf s1 then
                  (False, stop_offload (s1\<lparr>trbuf_offload_done := True\<rparr>))
                else
                  let s2 = (if m_trbuf_offset s1 = m_trbuf_alloc_sz s1
                            then s1\<lparr>m_rollover_count := m_rollover_count s1 + 1,
                                    m_trbuf_offset := 0\<rparr>
                            else s1);
                      s3 = s2\<lparr>m_trbuf_sz :=
                                bytes_written - m_rollover_count s2 * m_trbuf_alloc_sz s2\<rparr>;
                      s4 = (if m_trbuf_alloc_sz s3 < m_trbuf_sz s3
                            then s3\<lparr>m_trbuf_sz := m_trbuf_alloc_sz s3\<rparr> else s3)
                  in (True, s4))"

definition read_trace_s2mm ::
  "build \<Rightarrow> cycle_in \<Rightarrow> bool \<Rightarrow> DeviceTraceOffload \<Rightarrow> DeviceTraceOffload" where
  "read_trace_s2mm b inp force s =
     (let bytes_written = (wordcount inp - m_wordcount_old s) * TRACE_PACKET_SIZE b
      in if \<not> force \<and> bytes_written < TS2MM_MIN_READ_SIZE b then s
         else
           let s1 = s\<lparr>m_wordcount_old := wordcount inp\<rparr>;
               (ok, s2) = config_s2mm_reader b (wordcount inp) s1
           in if \<not> ok then s2
              else
                let nBytes = m_trbuf_sz s2 - m_trbuf_offset s2;
                    s3 = s2\<lparr>calls := calls s2 @ [SyncTraceBuf (m_trbuf s2) (m_trbuf_offset s2) nBytes]\<rparr>
                in (case host_buf inp of
                      None \<Rightarrow> s3
                    | Some parsed \<Rightarrow>
                        let s4 = s3\<lparr>m_trace_vector := parsed,
                                    calls := calls s3 @ [ParseTraceData nBytes]\<rparr>;
                            s5 = s4\<lparr>calls := calls s4 @ [ProcessTraceData (m_trace_vector s4)]\<rparr>;
                            s6 = s5\<lparr>m_trace_vector := []\<rparr>
                        in if m_trbuf_sz s6 = m_trbuf_alloc_sz s6 \<and> m_use_circ_buf s6 = False
                           then s6\<lparr>m_trbuf_full := True\<rparr> else s6))"

section \<open>Initialisation and teardown\<close>

definition reset_s2mm :: "DeviceTraceOffload \<Rightarrow> DeviceTraceOffload" where
  "reset_s2mm s =
     (if m_trbuf s = 0 then s
      else
        let s1 = (if m_use_circ_buf s
                  then s\<lparr>calls := calls s @ [InitTS2MM 0 (m_trbuf_addr s) False]\<rparr> else s)
        in s1\<lparr>calls := calls s1 @ [ResetTS2MM, FreeTraceBuf (m_trbuf s1)], m_trbuf := 0\<rparr>)"

definition init_s2mm ::
  "DeviceIntf \<Rightarrow> bool \<Rightarrow> DeviceTraceOffload \<Rightarrow> bool \<times> DeviceTraceOffload" where
  "init_s2mm dev circ_buf s =
     (let s1 = (if m_trbuf s \<noteq> 0 then reset_s2mm s else s)
      in if m_trbuf_alloc_sz s1 = 0 then (False, s1)
         else
           let s2 = s1\<lparr>m_trbuf := allocTraceBuf dev (m_trbuf_alloc_sz s1),
                       calls := calls s1 @ [AllocTraceBuf (m_trbuf_alloc_sz s1)]\<rparr>
           in if m_trbuf s2 = 0 then (False, s2)
              else
                let s3 = (if supportsCircBuf dev \<and> circ_buf then
                            (if sleep_interval_ms s2 \<noteq> 0 then
                               let s' = s2\<lparr>m_circ_buf_cur_rate :=
                                             m_trbuf_alloc_sz s2 * (1000 div sleep_interval_ms s2)\<rparr>
                               in if m_circ_buf_min_rate s' \<le> m_circ_buf_cur_rate s'
                                  then s'\<lparr>m_use_circ_buf := True\<rparr> else s'
                             else s2\<lparr>m_use_circ_buf := True\<rparr>)
                          else s2);
                    s4 = s3\<lparr>m_trbuf_addr := getDeviceAddr dev (m_trbuf s3)\<rparr>
                in (True,
                    s4\<lparr>calls := calls s4 @
                         [InitTS2MM (m_trbuf_alloc_sz s4) (m_trbuf_addr s4) (m_use_circ_buf s4)]\<rparr>))"

definition read_trace_init ::
  "DeviceIntf \<Rightarrow> bool \<Rightarrow> DeviceTraceOffload \<Rightarrow> bool \<times> DeviceTraceOffload" where
  "read_trace_init dev circ_buf s =
     (let s0 = s\<lparr>m_trbuf_full := False, trbuf_offload_done := False\<rparr>
      in if hasTs2mm dev then
           (let (r, s1) = init_s2mm dev circ_buf s0 in (r, s1\<lparr>m_initialized := r\<rparr>))
         else if hasFIFO dev then (True, s0\<lparr>m_initialized := True\<rparr>)
         else (False, s0\<lparr>m_initialized := False\<rparr>))"

definition read_trace_end :: "DeviceIntf \<Rightarrow> DeviceTraceOffload \<Rightarrow> DeviceTraceOffload" where
  "read_trace_end dev s =
     (let s1 = s\<lparr>m_trace_vector := []\<rparr>;
          s2 = s1\<lparr>calls := calls s1 @ [EndProcessTraceData (m_trace_vector s1)]\<rparr>
      in if hasTs2mm dev then (reset_s2mm s2)\<lparr>m_initialized := False\<rparr> else s2)"

section \<open>The worker\<close>

text \<open>The call \<^verbatim>\<open>m_read_trace(force)\<close> through the bound reader.\<close>

definition call_read_trace ::
  "build \<Rightarrow> DeviceIntf \<Rightarrow> cycle_in \<Rightarrow> bool \<Rightarrow> DeviceTraceOffload \<Rightarrow> DeviceTraceOffload option" where
  "call_read_trace b dev inp force s =
     (case m_read_trace s of
        Read_trace_fifo \<Rightarrow> read_trace_fifo b dev inp force s
      | Read_trace_s2mm \<Rightarrow> Some (read_trace_s2mm b inp force s))"

text \<open>
  One pass of the polling loop sees the clock (\<open>now\<close>), the device's answers to the read
  (\<open>rd\<close>), and whether the controller thread called \<^verbatim>\<open>stop_offload\<close> before the worker
  tests the status again (\<open>stop_requested\<close>).
\<close>

record tick =
  now :: int
  rd :: cycle_in
  stop_requested :: bool

text \<open>
  The loop \<^verbatim>\<open>while (should_continue()) { train_clock(); m_read_trace(false); sleep }\<close>.
  The ticks are the passes the environment provides; when they are used up and the status
  is still \<open>RUNNING\<close> the loop has not returned (\<open>None\<close>).
\<close>

fun offload_loop ::
  "build \<Rightarrow> DeviceIntf \<Rightarrow> tick list \<Rightarrow> DeviceTraceOffload \<Rightarrow> DeviceTraceOffload option" where
  "offload_loop b dev [] s = (if should_continue s then None else Some s)"
| "offload_loop b dev (t # ts) s =
     (if should_continue s then
        (case call_read_trace b dev (rd t) False (train_clock b (now t) s) of
           None \<Rightarrow> None
         | Some s1 \<Rightarrow> offload_loop b dev ts (if stop_requested t then stop_offload s1 else s1))
      else Some s)"

definition offload_device_continuous ::
  "build \<Rightarrow> DeviceIntf \<Rightarrow> tick list \<Rightarrow> cycle_in \<Rightarrow> DeviceTraceOffload \<Rightarrow> DeviceTraceOffload option" where
  "offload_device_continuous b dev ticks final s =
     (let (ok, s0) = (if m_initialized s then (True, s) else read_trace_init dev True s)
      in if \<not> ok then Some s0
         else (case offload_loop b dev ticks s0 of
                 None \<Rightarrow> None
               | Some s1 \<Rightarrow>
                   (case call_read_trace b dev final True s1 of
                      None \<Rightarrow> None
                    | Some s2 \<Rightarrow> Some (offload_finished (read_trace_end dev s2)))))"

fun clock_loop :: "build \<Rightarrow> tick list \<Rightarrow> DeviceTraceOffload \<Rightarrow> DeviceTraceOffload option" where
  "clock_loop b [] s = (if should_continue s then None else Some s)"
| "clock_loop b (t # ts) s =
     (if should_continue s then
        clock_loop b ts (let s1 = train_clock b (now t) s
                         in if stop_requested t then stop_offload s1 else s1)
      else Some s)"

definition train_clock_continuous ::
  "build \<Rightarrow> tick list \<Rightarrow> DeviceTraceOffload \<Rightarrow> DeviceTraceOffload option" where
  "train_clock_continuous b ticks s =
     (case clock_loop b ticks s of None \<Rightarrow> None | Some s1 \<Rightarrow> Some (offload_finished s1))"

text \<open>A sequence of stream read cycles, each with its force flag.\<close>

fun s2mm_cycles ::
  "build \<Rightarrow> (cycle_in \<times> bool) list \<Rightarrow> DeviceTraceOffload \<Rightarrow> DeviceTraceOffload" where
  "s2mm_cycles b [] s = s"
| "s2mm_cycles b ((inp, force) # cs) s = s2mm_cycles b cs (read_trace_s2mm b inp force s)"

section \<open>Runs and observations\<close>

text \<open>The status after each request of a sequence that returned, in order.\<close>

fun status_trace :: "request list \<Rightarrow> DeviceTraceOffload \<Rightarrow> OffloadThreadStatus list" where
  "status_trace [] s = []"
| "status_trace (r # rs) s =
     (case apply_request r s of
        Inl e \<Rightarrow> []
      | Inr s1 \<Rightarrow> status s1 # status_trace rs s1)"

text \<open>
  The times, among successive calls of \<open>train_clock\<close> at the given times, at which the
  device's clock training was called.
\<close>

fun train_clock_run :: "build \<Rightarrow> int list \<Rightarrow> DeviceTraceOffload \<Rightarrow> int list" where
  "train_clock_run b [] s = []"
| "train_clock_run b (t # ts) s =
     (if calls (train_clock b t s) \<noteq> calls s then [t] else []) @
     train_clock_run b ts (train_clock b t s)"

text \<open>A sequence of FIFO read cycles, each with its force flag.\<close>

fun fifo_cycles ::
  "build \<Rightarrow> DeviceIntf \<Rightarrow> (cycle_in \<times> bool) list \<Rightarrow> DeviceTraceOffload \<Rightarrow> DeviceTraceOffload option" where
  "fifo_cycles b dev [] s = Some s"
| "fifo_cycles b dev ((inp, force) # cs) s =
     (case read_trace_fifo b dev inp force s of
        None \<Rightarrow> None
      | Some s1 \<Rightarrow> fifo_cycles b dev cs s1)"

text \<open>The number of trace results handed to the logger by a sequence of calls.\<close>

fun delivered :: "call list \<Rightarrow> nat" where
  "delivered [] = 0"
| "delivered (ProcessTraceData rs # cs) = length rs + delivered cs"
| "delivered (c # cs) = delivered cs"

text \<open>The calls that move trace data: device reads, syncs, parsing and the logger's input.\<close>

fun is_data_transfer :: "call \<Rightarrow> bool" where
  "is_data_transfer ReadTrace = True"
| "is_data_transfer (SyncTraceBuf h off n) = True"
| "is_data_transfer (ParseTraceData n) = True"
| "is_data_transfer (ProcessTraceData rs) = True"
| "is_data_transfer c = False"

text \<open>The calls that report an overrun to the user.\<close>

fun is_overrun_report :: "call \<Rightarrow> bool" where
  "is_overrun_report (MessageSendWarning tag) = True"
| "is_overrun_report (UserEventMark name) = True"
| "is_overrun_report c = False"

text \<open>
  The two tests of the stream reader, named: a cycle is skipped when it is not forced and
  fewer than \<open>TS2MM_MIN_READ_SIZE\<close> bytes were written since the last accepted read; the
  window policy finds an overrun when the bytes written exceed the bytes read plus one
  allocation size.
\<close>

definition skipped :: "build \<Rightarrow> cycle_in \<Rightarrow> bool \<Rightarrow> DeviceTraceOffload \<Rightarrow> bool" where
  "skipped b inp force s =
     (\<not> force \<and> (wordcount inp - m_wordcount_old s) * TRACE_PACKET_SIZE b < TS2MM_MIN_READ_SIZE b)"

definition overrun :: "build \<Rightarrow> u64 \<Rightarrow> DeviceTraceOffload \<Rightarrow> bool" where
  "overrun b wordCount s =
     (m_rollover_count s * m_trbuf_alloc_sz s + m_trbuf_sz s + m_trbuf_alloc_sz s
        < wordCount * TRACE_PACKET_SIZE b)"

text \<open>
  What the reader expects of the device's word counter over a sequence of cycles, starting
  from the count \<open>w\<close>: it never decreases, and the byte count fits in 64 bits.
\<close>

fun counter_ok :: "build \<Rightarrow> u64 \<Rightarrow> (cycle_in \<times> bool) list \<Rightarrow> bool" where
  "counter_ok b w [] = True"
| "counter_ok b w ((inp, force) # cs) =
     (w \<le> wordcount inp
      \<and> unat (wordcount inp) * unat (TRACE_PACKET_SIZE b) < 2 ^ 64
      \<and> counter_ok b (wordcount inp) cs)"

text \<open>
  The invariant of the stream reader between cycles, in natural numbers: the byte count
  of the saved word count fits in 64 bits, the window lies in the allocation, and while
  no latch is set the window end is the number of bytes written in the current pass of the
  buffer, cut at the allocation size.
\<close>

definition s2mm_inv :: "build \<Rightarrow> DeviceTraceOffload \<Rightarrow> bool" where
  "s2mm_inv b s =
     (unat (m_wordcount_old s) * unat (TRACE_PACKET_SIZE b) < 2 ^ 64
      \<and> m_trbuf_sz s \<le> m_trbuf_alloc_sz s
      \<and> m_trbuf_offset s \<le> m_trbuf_sz s
      \<and> (\<not> trbuf_offload_done s \<longrightarrow>
           unat (m_rollover_count s) * unat (m_trbuf_alloc_sz s)
             \<le> unat (m_wordcount_old s) * unat (TRACE_PACKET_SIZE b)
           \<and> unat (m_trbuf_sz s) =
               min (unat (m_wordcount_old s) * unat (TRACE_PACKET_SIZE b)
                      - unat (m_rollover_count s) * unat (m_trbuf_alloc_sz s))
                   (unat (m_trbuf_alloc_sz s))))"

section \<open>Example configurations\<close>

text \<open>
  A build with 8-byte trace packets (the debug output of the stream reader prints the
  bytes written as the word count times 8), the 512-byte minimum read the source's comment
  names, the drain loop compiled in, and a nanosecond system clock.
\<close>

definition ex_build :: build where
  "ex_build = \<lparr> TRACE_PACKET_SIZE = 8, TS2MM_MIN_READ_SIZE = 512, WIN32 = False,
                ticks_per_ms = 1000000 \<rparr>"

text \<open>A device with the stream transport only, whose allocations succeed.\<close>

definition ex_dev_s2mm :: DeviceIntf where
  "ex_dev_s2mm = \<lparr> hasFIFO = False, hasTs2mm = True, supportsCircBuf = True, fifo_size = 0,
                   allocTraceBuf = (\<lambda>sz. 1), getDeviceAddr = (\<lambda>h. 4096) \<rparr>"

text \<open>A device with the FIFO transport only, of capacity 4.\<close>

definition ex_dev_fifo :: DeviceIntf where
  "ex_dev_fifo = \<lparr> hasFIFO = True, hasTs2mm = False, supportsCircBuf = False, fifo_size = 4,
                   allocTraceBuf = (\<lambda>sz. 0), getDeviceAddr = (\<lambda>h. 0) \<rparr>"

text \<open>A stream device whose buffer allocation fails.\<close>

definition ex_dev_noalloc :: DeviceIntf where
  "ex_dev_noalloc = \<lparr> hasFIFO = False, hasTs2mm = True, supportsCircBuf = True, fifo_size = 0,
                      allocTraceBuf = (\<lambda>sz. 0), getDeviceAddr = (\<lambda>h. 0) \<rparr>"

text \<open>A stream device whose data mover has no circular mode.\<close>

definition ex_dev_single :: DeviceIntf where
  "ex_dev_single = \<lparr> hasFIFO = False, hasTs2mm = True, supportsCircBuf = False, fifo_size = 0,
                     allocTraceBuf = (\<lambda>sz. 1), getDeviceAddr = (\<lambda>h. 4096) \<rparr>"

text \<open>The device's answers in a stream read cycle: the word count and the sync result.\<close>

definition ex_in :: "u64 \<Rightarrow> trace_result list option \<Rightarrow> cycle_in" where
  "ex_in w h = \<lparr> wordcount = w, host_buf = h, fifo_reads = [] \<rparr>"

text \<open>A cycle in which the device has nothing.\<close>

definition ex_idle_in :: cycle_in where
  "ex_idle_in = \<lparr> wordcount = 0, host_buf = None, fifo_reads = [[]] \<rparr>"

text \<open>
  A running stream session: constructed for a 1024-byte buffer polled every 100 ms,
  started, and initialised by the worker (circular mode is chosen).
\<close>

definition ex_session :: DeviceTraceOffload where
  "ex_session =
     snd (read_trace_init ex_dev_s2mm True
            (projr (start_offload TRACE (DeviceTraceOffload_ctor ex_dev_s2mm 100 1024 0 0))))"

text \<open>
  The example session after two accepted reads, at word counts 125 and 252: the window
  end has reached the end of the 1024-byte buffer.
\<close>

definition ex_filled :: DeviceTraceOffload where
  "ex_filled =
     s2mm_cycles ex_build [(ex_in 125 (Some [1]), False), (ex_in 252 (Some [2]), False)] ex_session"

text \<open>
  A running single-pass session on it whose one read, at word count 128, has filled the
  1024-byte buffer.
\<close>

definition ex_single_full :: DeviceTraceOffload where
  "ex_single_full =
     read_trace_s2mm ex_build (ex_in 128 (Some [1])) False
       (snd (read_trace_init ex_dev_single True
               (projr (start_offload TRACE (DeviceTraceOffload_ctor ex_dev_single 100 1024 0 0)))))"

text \<open>
  An object used for two sessions through \<open>read_trace_init\<close> and \<open>read_trace_end\<close>:
  constructed for a 1024-byte buffer, initialised, read once at word count 64 (512 bytes),
  torn down, and initialised again.
\<close>

definition ex_reinit :: DeviceTraceOffload where
  "ex_reinit =
     snd (read_trace_init ex_dev_s2mm True
            (read_trace_end ex_dev_s2mm
               (read_trace_s2mm ex_build (ex_in 64 (Some [1])) False
                  (snd (read_trace_init ex_dev_s2mm True
                          (DeviceTraceOffload_ctor ex_dev_s2mm 100 1024 0 0))))))"

section \<open>Properties\<close>

subsection \<open>Status transitions under start and stop requests\<close>

lemma start_offload_cases:
  "start_offload type s =
     (if status s = RUNNING then Inr s
      else if offload_thread s = None
           then Inr (s\<lparr>status := RUNNING, offload_thread := Some type\<rparr>)
           else Inl Terminate)"
  by (cases type; cases "offload_thread s") (simp_all add: start_offload_def Let_def)

lemma apply_request_status:
  "apply_request r s = Inr s1 \<Longrightarrow>
     status s1 = RUNNING
     \<or> (status s1 = STOPPING \<and> status s \<noteq> STOPPED)
     \<or> (status s1 = STOPPED \<and> status s = STOPPED)"
  by (cases r) (auto simp: start_offload_cases stop_offload_def split: if_splits)

text \<open>
  Claim C1, as the code has it. For every sequence of \<open>start_offload\<close> and \<open>stop_offload\<close>
  calls, each call that returns moves the status only in one of these ways: to \<open>RUNNING\<close>
  (a start), to \<open>STOPPING\<close> from a status other than \<open>STOPPED\<close> (a stop), or it stays
  \<open>STOPPED\<close>. A start is a no-op while \<open>RUNNING\<close>; on an object whose thread member owns no
  thread yet, a start from any other status sets \<open>RUNNING\<close> and creates the worker, also
  from \<open>STOPPING\<close>. A stop leaves only \<open>STOPPED\<close> unchanged and otherwise sets \<open>STOPPING\<close>,
  also from \<open>IDLE\<close>.
\<close>

theorem request_transitions:
  "successively
     (\<lambda>p q. q = RUNNING \<or> (q = STOPPING \<and> p \<noteq> STOPPED) \<or> (q = STOPPED \<and> p = STOPPED))
     (status s # status_trace rs s)
   \<and> (status s = RUNNING \<longrightarrow> start_offload type s = Inr s)
   \<and> (status s \<noteq> RUNNING \<and> offload_thread s = None \<longrightarrow>
        start_offload type s = Inr (s\<lparr>status := RUNNING, offload_thread := Some type\<rparr>))
   \<and> stop_offload s = (if status s = STOPPED then s else s\<lparr>status := STOPPING\<rparr>)"
proof -
  have "successively
     (\<lambda>p q. q = RUNNING \<or> (q = STOPPING \<and> p \<noteq> STOPPED) \<or> (q = STOPPED \<and> p = STOPPED))
     (status s # status_trace rs s)"
  proof (induction rs arbitrary: s)
    case Nil
    then show ?case by simp
  next
    case (Cons r rs)
    show ?case
    proof (cases "apply_request r s")
      case (Inl e)
      then show ?thesis by simp
    next
      case (Inr s1)
      from apply_request_status [OF Inr] Cons.IH [of s1] Inr show ?thesis
        by simp
    qed
  qed
  then show ?thesis by (simp add: start_offload_cases stop_offload_def)
qed

text \<open>
  A fresh object and five requests, all of which return; the start on the fresh object
  creates the worker, and the start on the running object changes nothing.
\<close>

theorem request_transitions_witness:
  "status_trace [Stop, Start TRACE, Start CLOCK_TRAIN, Stop, Stop]
       (DeviceTraceOffload_ctor ex_dev_s2mm 100 1024 0 0)
     = [STOPPING, RUNNING, RUNNING, STOPPING, STOPPING]
   \<and> successively
       (\<lambda>p q. q = RUNNING \<or> (q = STOPPING \<and> p \<noteq> STOPPED) \<or> (q = STOPPED \<and> p = STOPPED))
       (status (DeviceTraceOffload_ctor ex_dev_s2mm 100 1024 0 0) #
        status_trace [Stop, Start TRACE, Start CLOCK_TRAIN, Stop, Stop]
          (DeviceTraceOffload_ctor ex_dev_s2mm 100 1024 0 0))
   \<and> start_offload TRACE (DeviceTraceOffload_ctor ex_dev_s2mm 100 1024 0 0)
       = Inr ((DeviceTraceOffload_ctor ex_dev_s2mm 100 1024 0 0)
                \<lparr>status := RUNNING, offload_thread := Some TRACE\<rparr>)
   \<and> start_offload CLOCK_TRAIN
         ((DeviceTraceOffload_ctor ex_dev_s2mm 100 1024 0 0)
            \<lparr>status := RUNNING, offload_thread := Some TRACE\<rparr>)
       = Inr ((DeviceTraceOffload_ctor ex_dev_s2mm 100 1024 0 0)
                \<lparr>status := RUNNING, offload_thread := Some TRACE\<rparr>)"
proof -
  let ?s0 = "DeviceTraceOffload_ctor ex_dev_s2mm 100 1024 0 0"
  let ?s1 = "?s0\<lparr>status := RUNNING, offload_thread := Some TRACE\<rparr>"
  have tr: "status_trace [Stop, Start TRACE, Start CLOCK_TRAIN, Stop, Stop] ?s0
     = [STOPPING, RUNNING, RUNNING, STOPPING, STOPPING]"
    by (simp add: DeviceTraceOffload_ctor_def header_defaults_def start_offload_def
        stop_offload_def Let_def)
  have h0: "status ?s0 \<noteq> RUNNING \<and> offload_thread ?s0 = None"
    by (simp add: DeviceTraceOffload_ctor_def header_defaults_def)
  have h1: "status ?s1 = RUNNING" by simp
  note i0 = request_transitions [of ?s0 "[Stop, Start TRACE, Start CLOCK_TRAIN, Stop, Stop]" TRACE]
  note i1 = request_transitions [of ?s1 "[]" CLOCK_TRAIN]
  from i0 have "successively
       (\<lambda>p q. q = RUNNING \<or> (q = STOPPING \<and> p \<noteq> STOPPED) \<or> (q = STOPPED \<and> p = STOPPED))
       (status ?s0 # status_trace [Stop, Start TRACE, Start CLOCK_TRAIN, Stop, Stop] ?s0)"
    by (rule conjunct1)
  moreover from i0 h0 have "start_offload TRACE ?s0 = Inr ?s1" by blast
  moreover from i1 h1 have "start_offload CLOCK_TRAIN ?s1 = Inr ?s1" by blast
  ultimately show ?thesis using tr by (intro conjI)
qed

text \<open>
  Against C1 as stated: on a fresh object (status \<open>IDLE\<close>) a stop moves the status to
  \<open>STOPPING\<close>, and a start is then accepted from \<open>STOPPING\<close>.
\<close>

theorem stop_from_idle_counterexample:
  "status (DeviceTraceOffload_ctor ex_dev_s2mm 100 1024 0 0) = IDLE
   \<and> apply_requests [Stop] (DeviceTraceOffload_ctor ex_dev_s2mm 100 1024 0 0)
       = Inr ((DeviceTraceOffload_ctor ex_dev_s2mm 100 1024 0 0)\<lparr>status := STOPPING\<rparr>)
   \<and> apply_requests [Stop, Start TRACE] (DeviceTraceOffload_ctor ex_dev_s2mm 100 1024 0 0)
       = Inr ((DeviceTraceOffload_ctor ex_dev_s2mm 100 1024 0 0)
                \<lparr>status := RUNNING, offload_thread := Some TRACE\<rparr>)"
  by (simp add: DeviceTraceOffload_ctor_def header_defaults_def ex_dev_s2mm_def
      start_offload_def stop_offload_def Let_def)

text \<open>
  Once a worker was created, a start from a status other than \<open>RUNNING\<close> assigns to the
  joinable thread member: the process is terminated.
\<close>

lemma start_after_stop_terminates:
  "apply_requests [Start TRACE, Stop, Start TRACE] (DeviceTraceOffload_ctor ex_dev_s2mm 100 1024 0 0)
     = Inl Terminate"
  by (simp add: DeviceTraceOffload_ctor_def header_defaults_def ex_dev_s2mm_def
      start_offload_def stop_offload_def Let_def)

subsection \<open>Clock training\<close>

lemma duration_cast_ms_ge:
  assumes "0 < tpm"
  shows "(500 \<le> duration_cast_ms tpm d) = (500 * tpm \<le> d)"
proof (cases "0 \<le> d")
  case True
  have "(500 \<le> d div tpm) = (500 * tpm \<le> d)"
  proof
    assume "500 \<le> d div tpm"
    then have "500 * tpm \<le> (d div tpm) * tpm"
      using assms by (simp add: mult_right_mono)
    moreover have "(d div tpm) * tpm + d mod tpm = d" by simp
    moreover have "0 \<le> d mod tpm" using assms by simp
    ultimately show "500 * tpm \<le> d" by linarith
  next
    assume "500 * tpm \<le> d"
    then have "(500 * tpm) div tpm \<le> d div tpm"
      using assms by (rule zdiv_mono1)
    then show "500 \<le> d div tpm" using assms by simp
  qed
  with True show ?thesis by (simp add: duration_cast_ms_def)
next
  case False
  then have "0 \<le> (- d) div tpm" using assms by (simp add: pos_imp_zdiv_nonneg_iff)
  moreover have "d < 500 * tpm" using False assms by (smt (verit) mult_pos_pos)
  ultimately show ?thesis using False by (simp add: duration_cast_ms_def)
qed

lemma train_clock_eq:
  assumes "0 < ticks_per_ms b"
  shows "train_clock b t0 s =
     (if 500 * ticks_per_ms b \<le> t0 - m_prev_clk_train_time s \<or> m_force_clk_train s
      then s\<lparr>calls := calls s @ [ClockTraining (m_force_clk_train s)],
             m_prev_clk_train_time := t0, m_force_clk_train := False\<rparr>
      else s\<lparr>m_force_clk_train := False\<rparr>)"
  using duration_cast_ms_ge [OF assms, of "t0 - m_prev_clk_train_time s"]
  by (simp add: train_clock_def Let_def)

lemma train_clock_run_spaced:
  assumes "0 < ticks_per_ms b"
  shows "sorted_wrt (\<lambda>t1 t2. 500 * ticks_per_ms b \<le> t2 - t1) (train_clock_run b ts s)
    \<and> (\<not> m_force_clk_train s \<longrightarrow>
         (\<forall>t \<in> set (train_clock_run b ts s). 500 * ticks_per_ms b \<le> t - m_prev_clk_train_time s))"
proof (induction ts arbitrary: s)
  case Nil
  then show ?case by simp
next
  case (Cons t ts)
  let ?s' = "train_clock b t s"
  have nf: "\<not> m_force_clk_train ?s'" by (simp add: train_clock_eq [OF assms])
  note IH = Cons.IH [of ?s']
  show ?case
  proof (cases "500 * ticks_per_ms b \<le> t - m_prev_clk_train_time s \<or> m_force_clk_train s")
    case True
    then have p: "m_prev_clk_train_time ?s' = t" and c: "calls ?s' \<noteq> calls s"
      by (simp_all add: train_clock_eq [OF assms])
    from IH nf p have later: "\<forall>u \<in> set (train_clock_run b ts ?s'). 500 * ticks_per_ms b \<le> u - t"
      by simp
    have "\<not> m_force_clk_train s \<longrightarrow>
         (\<forall>u \<in> set (train_clock_run b ts ?s'). 500 * ticks_per_ms b \<le> u - m_prev_clk_train_time s)"
    proof (intro impI ballI)
      fix u assume "\<not> m_force_clk_train s" and "u \<in> set (train_clock_run b ts ?s')"
      then have "500 * ticks_per_ms b \<le> u - t" and "500 * ticks_per_ms b \<le> t - m_prev_clk_train_time s"
        using later True by auto
      then show "500 * ticks_per_ms b \<le> u - m_prev_clk_train_time s" using assms by linarith
    qed
    with IH later True c show ?thesis by auto
  next
    case False
    then have p: "m_prev_clk_train_time ?s' = m_prev_clk_train_time s" and c: "calls ?s' = calls s"
      by (simp_all add: train_clock_eq [OF assms])
    with IH nf False show ?thesis by simp
  qed
qed

text \<open>
  Claim C6. With a clock of \<open>ticks_per_ms\<close> > 0 ticks per millisecond, a call of
  \<open>train_clock\<close> calls the device's clock training exactly when at least 500 ms have
  passed since the recorded training time or the force flag is set; it then records the
  current time; the force flag is false after every call. The first call on a freshly
  constructed object trains, whatever the times. In any run of calls, two trainings are at
  least 500 ms apart, and without the force flag every training is at least 500 ms after
  the recorded time: no window shorter than 500 ms holds two trainings.
\<close>

theorem train_clock_cadence:
  assumes "0 < ticks_per_ms b"
  shows "train_clock b t0 s =
       (if 500 * ticks_per_ms b \<le> t0 - m_prev_clk_train_time s \<or> m_force_clk_train s
        then s\<lparr>calls := calls s @ [ClockTraining (m_force_clk_train s)],
               m_prev_clk_train_time := t0, m_force_clk_train := False\<rparr>
        else s\<lparr>m_force_clk_train := False\<rparr>)
     \<and> calls (train_clock b t0 (DeviceTraceOffload_ctor dev sleep_ms trbuf_sz min_rate t_ctor))
         = [ClockTraining True]
     \<and> sorted_wrt (\<lambda>t1 t2. 500 * ticks_per_ms b \<le> t2 - t1) (train_clock_run b ts s)
     \<and> (\<not> m_force_clk_train s \<longrightarrow>
         (\<forall>t \<in> set (train_clock_run b ts s). 500 * ticks_per_ms b \<le> t - m_prev_clk_train_time s))"
proof -
  have "calls (train_clock b t0 (DeviceTraceOffload_ctor dev sleep_ms trbuf_sz min_rate t_ctor))
         = [ClockTraining True]"
    by (simp add: train_clock_eq [OF assms] DeviceTraceOffload_ctor_def header_defaults_def)
  with train_clock_eq [OF assms, of t0 s] train_clock_run_spaced [OF assms, of ts s]
  show ?thesis by blast
qed

text \<open>
  A fresh object polled at 100, 300, 600, 700 and 1200 ms trains at 100 (forced), 600
  and 1200 ms; after the forced training every training is at least 500 ms later.
\<close>

theorem train_clock_cadence_witness:
  "train_clock_run ex_build [100000000, 300000000, 600000000, 700000000, 1200000000]
       (DeviceTraceOffload_ctor ex_dev_s2mm 100 1024 0 0)
     = [100000000, 600000000, 1200000000]
   \<and> calls (train_clock ex_build 100000000 (DeviceTraceOffload_ctor ex_dev_s2mm 100 1024 0 0))
       = [ClockTraining True]
   \<and> sorted_wrt (\<lambda>t1 t2. 500 * ticks_per_ms ex_build \<le> t2 - t1)
       (train_clock_run ex_build [100000000, 300000000, 600000000, 700000000, 1200000000]
          (DeviceTraceOffload_ctor ex_dev_s2mm 100 1024 0 0))
   \<and> list_all (\<lambda>t. 500 * ticks_per_ms ex_build \<le> t - 100000000)
       (train_clock_run ex_build [300000000, 600000000, 700000000, 1200000000]
          (train_clock ex_build 100000000 (DeviceTraceOffload_ctor ex_dev_s2mm 100 1024 0 0)))"
proof -
  have pos: "0 < ticks_per_ms ex_build" by (simp add: ex_build_def)
  let ?s1 = "train_clock ex_build 100000000 (DeviceTraceOffload_ctor ex_dev_s2mm 100 1024 0 0)"
  have nf: "\<not> m_force_clk_train ?s1" and pr: "m_prev_clk_train_time ?s1 = 100000000"
    by (simp_all add: train_clock_def duration_cast_ms_def ex_build_def DeviceTraceOffload_ctor_def
        header_defaults_def Let_def)
  from train_clock_cadence [OF pos, of 100000000 ?s1 ex_dev_s2mm 100 1024 0 0
      "[300000000, 600000000, 700000000, 1200000000]"] nf
  have "\<forall>t \<in> set (train_clock_run ex_build [300000000, 600000000, 700000000, 1200000000] ?s1).
          500 * ticks_per_ms ex_build \<le> t - m_prev_clk_train_time ?s1"
    by blast
  then have later: "list_all (\<lambda>t. 500 * ticks_per_ms ex_build \<le> t - 100000000)
       (train_clock_run ex_build [300000000, 600000000, 700000000, 1200000000] ?s1)"
    unfolding pr by (simp only: list_all_iff)
  have run: "train_clock_run ex_build [100000000, 300000000, 600000000, 700000000, 1200000000]
       (DeviceTraceOffload_ctor ex_dev_s2mm 100 1024 0 0)
     = [100000000, 600000000, 1200000000]"
    by (simp add: train_clock_def duration_cast_ms_def ex_build_def DeviceTraceOffload_ctor_def
        header_defaults_def Let_def)
  note inst = train_clock_cadence [OF pos, of 100000000 "DeviceTraceOffload_ctor ex_dev_s2mm 100 1024 0 0"
      ex_dev_s2mm 100 1024 0 0 "[100000000, 300000000, 600000000, 700000000, 1200000000]"]
  from inst have "calls (train_clock ex_build 100000000 (DeviceTraceOffload_ctor ex_dev_s2mm 100 1024 0 0))
       = [ClockTraining True]"
    by (rule conjunct1 [OF conjunct2])
  moreover from inst have "sorted_wrt (\<lambda>t1 t2. 500 * ticks_per_ms ex_build \<le> t2 - t1)
       (train_clock_run ex_build [100000000, 300000000, 600000000, 700000000, 1200000000]
          (DeviceTraceOffload_ctor ex_dev_s2mm 100 1024 0 0))"
    by (rule conjunct1 [OF conjunct2 [OF conjunct2]])
  ultimately show ?thesis using run later by (intro conjI)
qed

subsection \<open>The FIFO reader's full latch\<close>

lemma delivered_append: "delivered (xs @ ys) = delivered xs + delivered ys"
  by (induction xs rule: delivered.induct) simp_all

lemma fifo_drain_count:
  "fifo_drain chunks n s = Some (n', s') \<Longrightarrow>
     \<exists>k. delivered (calls s') = delivered (calls s) + k \<and> n' = n + of_nat k
          \<and> m_trbuf_full s' = m_trbuf_full s"
proof (induction chunks arbitrary: n s)
  case Nil
  then show ?case by simp
next
  case (Cons chunk rest)
  let ?s1 = "s\<lparr>m_trace_vector := chunk, calls := calls s @ [ReadTrace, ProcessTraceData chunk]\<rparr>"
  have d1: "delivered (calls ?s1) = delivered (calls s) + length chunk"
    by (simp add: delivered_append)
  show ?case
  proof (cases "length chunk \<noteq> 0")
    case True
    with Cons.prems have "fifo_drain rest (n + of_nat (length chunk)) ?s1 = Some (n', s')"
      by (simp add: Let_def)
    from Cons.IH [OF this] obtain k where
      "delivered (calls s') = delivered (calls ?s1) + k" "n' = n + of_nat (length chunk) + of_nat k"
      "m_trbuf_full s' = m_trbuf_full ?s1" by blast
    with d1 have "delivered (calls s') = delivered (calls s) + (length chunk + k)
        \<and> n' = n + of_nat (length chunk + k) \<and> m_trbuf_full s' = m_trbuf_full s"
      by simp
    then show ?thesis by blast
  next
    case False
    with Cons.prems have "n' = n + of_nat (length chunk)" "s' = ?s1"
      by (simp_all add: Let_def)
    with d1 show ?thesis by auto
  qed
qed

lemma fifo_read_once_count:
  "fifo_read_once chunks n s = Some (n', s') \<Longrightarrow>
     \<exists>k. delivered (calls s') = delivered (calls s) + k \<and> n' = n + of_nat k
          \<and> m_trbuf_full s' = m_trbuf_full s"
  by (auto simp: fifo_read_once_def delivered_append split: list.splits)

lemma fifo_drain_returns:
  "[] \<in> set chunks \<Longrightarrow> \<exists>r. fifo_drain chunks n s = Some r"
  by (induction chunks arbitrary: n s) (auto simp: Let_def)

lemma read_trace_fifo_latch:
  assumes "\<not> m_trbuf_full s" and "read_trace_fifo b dev inp force s = Some s'"
    and "delivered (calls s') - delivered (calls s) < 2 ^ 32"
  shows "m_trbuf_full s' = (unat (fifo_size dev) \<le> delivered (calls s') - delivered (calls s))"
proof -
  from assms(1,2) obtain n s1 where
    r: "(if WIN32 b then fifo_read_once (fifo_reads inp) 0 s else fifo_drain (fifo_reads inp) 0 s)
          = Some (n, s1)"
    and s': "s' = (if \<not> m_trbuf_full s1
                   then (if fifo_size dev \<le> n then s1\<lparr>m_trbuf_full := True\<rparr> else s1) else s1)"
    by (auto simp: read_trace_fifo_def split: option.splits)
  from r obtain k where k: "delivered (calls s1) = delivered (calls s) + k" "n = of_nat k"
    "m_trbuf_full s1 = m_trbuf_full s"
    using fifo_drain_count [of "fifo_reads inp" 0 s n s1]
      fifo_read_once_count [of "fifo_reads inp" 0 s n s1]
    by (auto split: if_splits)
  from s' have c: "calls s' = calls s1" by simp
  with k assms(3) have "k < 2 ^ 32" by simp
  then have "unat n = k" using k(2) by (simp add: unat_of_nat take_bit_nat_eq_self)
  then have "(fifo_size dev \<le> n) = (unat (fifo_size dev) \<le> k)"
    by (simp add: word_le_nat_alt)
  with s' k assms(1) c show ?thesis by simp
qed

lemma fifo_cycles_full: "m_trbuf_full s \<Longrightarrow> fifo_cycles b dev cs s = Some s"
  by (induction cs) (auto simp: read_trace_fifo_def)

text \<open>
  Claim C5. A FIFO read cycle that starts with the full latch clear and hands to the logger
  a number of results (below \<open>2 ^ 32\<close>, the range of the cycle's counter) that reaches or
  exceeds the FIFO capacity reported by the device ends with the full latch set. The drain
  loop returns as soon as the device answers one empty read (without the loop, after the
  one read). Once the latch is set, every
  sequence of read cycles, forced or not, and the worker's call through the bound reader,
  return the state as it was: no device read, nothing handed to the logger.
\<close>

theorem fifo_full_is_final:
  "(\<not> m_trbuf_full s \<and> read_trace_fifo b dev inp force s = Some s'
      \<and> delivered (calls s') - delivered (calls s) < 2 ^ 32
      \<and> unat (fifo_size dev) \<le> delivered (calls s') - delivered (calls s)
     \<longrightarrow> m_trbuf_full s')
   \<and> ((if WIN32 b then fifo_reads inp \<noteq> [] else [] \<in> set (fifo_reads inp))
        \<longrightarrow> (\<exists>s1. read_trace_fifo b dev inp force s = Some s1))
   \<and> (m_trbuf_full s \<longrightarrow> fifo_cycles b dev cs s = Some s
        \<and> call_read_trace b dev inp force (s\<lparr>m_read_trace := Read_trace_fifo\<rparr>)
            = Some (s\<lparr>m_read_trace := Read_trace_fifo\<rparr>))"
proof -
  have "(if WIN32 b then fifo_reads inp \<noteq> [] else [] \<in> set (fifo_reads inp))
        \<longrightarrow> (\<exists>s1. read_trace_fifo b dev inp force s = Some s1)"
    using fifo_drain_returns [of "fifo_reads inp" 0 s]
    by (auto simp: read_trace_fifo_def fifo_read_once_def split: list.splits)
  moreover have "m_trbuf_full s \<longrightarrow>
       call_read_trace b dev inp force (s\<lparr>m_read_trace := Read_trace_fifo\<rparr>)
            = Some (s\<lparr>m_read_trace := Read_trace_fifo\<rparr>)"
    by (simp add: call_read_trace_def read_trace_fifo_def)
  ultimately show ?thesis
    using read_trace_fifo_latch [of s b dev inp force s'] fifo_cycles_full [of s b dev cs]
    by blast
qed

text \<open>
  Capacity 4: a cycle draining 3 + 2 results sets the latch, and two later cycles (the
  second forced) change nothing.
\<close>

theorem fifo_full_is_final_witness:
  "read_trace_fifo ex_build ex_dev_fifo
       \<lparr>wordcount = 0, host_buf = None, fifo_reads = [[1, 2, 3], [4, 5], []]\<rparr> False
       (DeviceTraceOffload_ctor ex_dev_fifo 100 1024 0 0)
     = Some ((DeviceTraceOffload_ctor ex_dev_fifo 100 1024 0 0)
               \<lparr>m_trace_vector := [], m_trbuf_full := True,
                 calls := [ReadTrace, ProcessTraceData [1, 2, 3], ReadTrace, ProcessTraceData [4, 5],
                           ReadTrace, ProcessTraceData []]\<rparr>)
   \<and> fifo_cycles ex_build ex_dev_fifo
       [(\<lparr>wordcount = 0, host_buf = None, fifo_reads = [[6], []]\<rparr>, False),
        (\<lparr>wordcount = 0, host_buf = None, fifo_reads = [[7], []]\<rparr>, True)]
       ((DeviceTraceOffload_ctor ex_dev_fifo 100 1024 0 0)
               \<lparr>m_trace_vector := [], m_trbuf_full := True,
                 calls := [ReadTrace, ProcessTraceData [1, 2, 3], ReadTrace, ProcessTraceData [4, 5],
                           ReadTrace, ProcessTraceData []]\<rparr>)
     = Some ((DeviceTraceOffload_ctor ex_dev_fifo 100 1024 0 0)
               \<lparr>m_trace_vector := [], m_trbuf_full := True,
                 calls := [ReadTrace, ProcessTraceData [1, 2, 3], ReadTrace, ProcessTraceData [4, 5],
                           ReadTrace, ProcessTraceData []]\<rparr>)"
proof -
  let ?s0 = "DeviceTraceOffload_ctor ex_dev_fifo 100 1024 0 0"
  let ?s1 = "?s0\<lparr>m_trace_vector := [], m_trbuf_full := True,
                 calls := [ReadTrace, ProcessTraceData [1, 2, 3], ReadTrace, ProcessTraceData [4, 5],
                           ReadTrace, ProcessTraceData []]\<rparr>"
  have r: "read_trace_fifo ex_build ex_dev_fifo
       \<lparr>wordcount = 0, host_buf = None, fifo_reads = [[1, 2, 3], [4, 5], []]\<rparr> False ?s0 = Some ?s1"
    by (simp add: read_trace_fifo_def ex_build_def ex_dev_fifo_def DeviceTraceOffload_ctor_def
        header_defaults_def Let_def)
  have n0: "\<not> m_trbuf_full ?s0"
    by (simp add: DeviceTraceOffload_ctor_def header_defaults_def)
  have d: "delivered (calls ?s1) - delivered (calls ?s0) < 2 ^ 32"
    "unat (fifo_size ex_dev_fifo) \<le> delivered (calls ?s1) - delivered (calls ?s0)"
    by (simp_all add: DeviceTraceOffload_ctor_def header_defaults_def ex_dev_fifo_def)
  from fifo_full_is_final [of ?s0 ex_build ex_dev_fifo
      "\<lparr>wordcount = 0, host_buf = None, fifo_reads = [[1, 2, 3], [4, 5], []]\<rparr>" False ?s1 "[]"]
    n0 r d
  have f: "m_trbuf_full ?s1" by blast
  from fifo_full_is_final [of ?s1 ex_build ex_dev_fifo
      "\<lparr>wordcount = 0, host_buf = None, fifo_reads = [[1, 2, 3], [4, 5], []]\<rparr>" False ?s1
      "[(\<lparr>wordcount = 0, host_buf = None, fifo_reads = [[6], []]\<rparr>, False),
        (\<lparr>wordcount = 0, host_buf = None, fifo_reads = [[7], []]\<rparr>, True)]"] f
  have "fifo_cycles ex_build ex_dev_fifo
       [(\<lparr>wordcount = 0, host_buf = None, fifo_reads = [[6], []]\<rparr>, False),
        (\<lparr>wordcount = 0, host_buf = None, fifo_reads = [[7], []]\<rparr>, True)] ?s1 = Some ?s1"
    by blast
  with r show ?thesis by (rule conjI)
qed

subsection \<open>Choice of circular mode at initialisation\<close>

lemma reset_s2mm_keeps:
  "m_use_circ_buf (reset_s2mm s) = m_use_circ_buf s
   \<and> sleep_interval_ms (reset_s2mm s) = sleep_interval_ms s
   \<and> m_trbuf_alloc_sz (reset_s2mm s) = m_trbuf_alloc_sz s
   \<and> m_circ_buf_min_rate (reset_s2mm s) = m_circ_buf_min_rate s
   \<and> status (reset_s2mm s) = status s
   \<and> m_initialized (reset_s2mm s) = m_initialized s"
  by (simp add: reset_s2mm_def Let_def)

text \<open>
  Claim C10. Take a poll interval other than zero, for which the rate estimate
  \<open>m_trbuf_alloc_sz * (1000 div sleep_interval_ms)\<close>, in 64-bit unsigned arithmetic, exists,
  and a session in which circular mode, if it is set at all, was chosen for a supporting
  device and a sufficient estimate (a constructed object is in single-pass mode, and
  \<open>init_s2mm\<close> is the only place that writes the mode). After \<open>init_s2mm\<close> the session is
  in circular mode only if the device's data mover supports circular buffers and the
  estimate is at least the minimum rate; when either condition fails it is in single-pass
  mode. From single-pass mode, circular mode is chosen exactly when the initialisation
  succeeds, a circular buffer was asked for and both conditions hold. The data mover is
  initialised with the mode chosen, and the interval, the size and the minimum rate are
  left as they were.
\<close>

theorem circular_mode_needs_support_and_rate:
  assumes "sleep_interval_ms s \<noteq> 0"
    and "m_use_circ_buf s \<longrightarrow>
           supportsCircBuf dev
           \<and> m_circ_buf_min_rate s \<le> m_trbuf_alloc_sz s * (1000 div sleep_interval_ms s)"
  shows "(m_use_circ_buf (snd (init_s2mm dev circ_buf s)) \<longrightarrow>
            supportsCircBuf dev
            \<and> m_circ_buf_min_rate s \<le> m_trbuf_alloc_sz s * (1000 div sleep_interval_ms s))
     \<and> (\<not> supportsCircBuf dev
          \<or> \<not> m_circ_buf_min_rate s \<le> m_trbuf_alloc_sz s * (1000 div sleep_interval_ms s)
        \<longrightarrow> \<not> m_use_circ_buf (snd (init_s2mm dev circ_buf s)))
     \<and> (\<not> m_use_circ_buf s \<longrightarrow>
          m_use_circ_buf (snd (init_s2mm dev circ_buf s)) =
            (fst (init_s2mm dev circ_buf s) \<and> supportsCircBuf dev \<and> circ_buf
             \<and> m_circ_buf_min_rate s \<le> m_trbuf_alloc_sz s * (1000 div sleep_interval_ms s)))
     \<and> (fst (init_s2mm dev circ_buf s) \<longrightarrow>
          last (calls (snd (init_s2mm dev circ_buf s))) =
            InitTS2MM (m_trbuf_alloc_sz s) (m_trbuf_addr (snd (init_s2mm dev circ_buf s)))
              (m_use_circ_buf (snd (init_s2mm dev circ_buf s))))
     \<and> sleep_interval_ms (snd (init_s2mm dev circ_buf s)) = sleep_interval_ms s
     \<and> m_trbuf_alloc_sz (snd (init_s2mm dev circ_buf s)) = m_trbuf_alloc_sz s
     \<and> m_circ_buf_min_rate (snd (init_s2mm dev circ_buf s)) = m_circ_buf_min_rate s"
proof -
  let ?s1 = "if m_trbuf s \<noteq> 0 then reset_s2mm s else s"
  have k: "m_use_circ_buf ?s1 = m_use_circ_buf s" "sleep_interval_ms ?s1 = sleep_interval_ms s"
    "m_trbuf_alloc_sz ?s1 = m_trbuf_alloc_sz s" "m_circ_buf_min_rate ?s1 = m_circ_buf_min_rate s"
    using reset_s2mm_keeps [of s] by simp_all
  have c: "m_use_circ_buf (snd (init_s2mm dev circ_buf s)) =
      (m_use_circ_buf s
       \<or> fst (init_s2mm dev circ_buf s) \<and> supportsCircBuf dev \<and> circ_buf
         \<and> m_circ_buf_min_rate s \<le> m_trbuf_alloc_sz s * (1000 div sleep_interval_ms s))"
    using assms(1) k by (auto simp: init_s2mm_def Let_def)
  have l: "fst (init_s2mm dev circ_buf s) \<longrightarrow>
          last (calls (snd (init_s2mm dev circ_buf s))) =
            InitTS2MM (m_trbuf_alloc_sz s) (m_trbuf_addr (snd (init_s2mm dev circ_buf s)))
              (m_use_circ_buf (snd (init_s2mm dev circ_buf s)))"
    using k by (auto simp: init_s2mm_def Let_def)
  have f: "sleep_interval_ms (snd (init_s2mm dev circ_buf s)) = sleep_interval_ms s"
    "m_trbuf_alloc_sz (snd (init_s2mm dev circ_buf s)) = m_trbuf_alloc_sz s"
    "m_circ_buf_min_rate (snd (init_s2mm dev circ_buf s)) = m_circ_buf_min_rate s"
    using k by (auto simp: init_s2mm_def Let_def)
  from c l f assms(2) show ?thesis by blast
qed

text \<open>
  A 1 MiB buffer polled every 100 ms gives the estimate 10 MiB/s: circular mode is chosen
  against a minimum of 10 MiB/s, and not against a minimum one byte higher.
\<close>

theorem circular_mode_needs_support_and_rate_witness:
  "m_use_circ_buf (snd (init_s2mm ex_dev_s2mm True
       (DeviceTraceOffload_ctor ex_dev_s2mm 100 1048576 10485760 0)))
   \<and> \<not> m_use_circ_buf (snd (init_s2mm ex_dev_s2mm True
       (DeviceTraceOffload_ctor ex_dev_s2mm 100 1048576 10485761 0)))"
proof -
  let ?a = "DeviceTraceOffload_ctor ex_dev_s2mm 100 1048576 10485760 0"
  let ?b = "DeviceTraceOffload_ctor ex_dev_s2mm 100 1048576 10485761 0"
  have na: "\<not> m_use_circ_buf ?a" and nb: "\<not> m_use_circ_buf ?b"
    by (simp_all add: DeviceTraceOffload_ctor_def header_defaults_def)
  have ha: "sleep_interval_ms ?a \<noteq> 0" and hb: "sleep_interval_ms ?b \<noteq> 0"
    by (simp_all add: DeviceTraceOffload_ctor_def header_defaults_def)
  have ia: "m_use_circ_buf ?a \<longrightarrow> supportsCircBuf ex_dev_s2mm
      \<and> m_circ_buf_min_rate ?a \<le> m_trbuf_alloc_sz ?a * (1000 div sleep_interval_ms ?a)"
    and ib: "m_use_circ_buf ?b \<longrightarrow> supportsCircBuf ex_dev_s2mm
      \<and> m_circ_buf_min_rate ?b \<le> m_trbuf_alloc_sz ?b * (1000 div sleep_interval_ms ?b)"
    using na nb by simp_all
  have fa: "fst (init_s2mm ex_dev_s2mm True ?a)"
    by (simp add: init_s2mm_def ex_dev_s2mm_def DeviceTraceOffload_ctor_def header_defaults_def Let_def)
  have ra: "supportsCircBuf ex_dev_s2mm
      \<and> m_circ_buf_min_rate ?a \<le> m_trbuf_alloc_sz ?a * (1000 div sleep_interval_ms ?a)"
    by (simp add: ex_dev_s2mm_def DeviceTraceOffload_ctor_def header_defaults_def)
  have rb: "\<not> m_circ_buf_min_rate ?b \<le> m_trbuf_alloc_sz ?b * (1000 div sleep_interval_ms ?b)"
    by (simp add: DeviceTraceOffload_ctor_def header_defaults_def)
  from circular_mode_needs_support_and_rate [OF ha ia, of True] na fa ra
  have "m_use_circ_buf (snd (init_s2mm ex_dev_s2mm True ?a))" by blast
  moreover from circular_mode_needs_support_and_rate [OF hb ib, of True] rb
  have "\<not> m_use_circ_buf (snd (init_s2mm ex_dev_s2mm True ?b))" by blast
  ultimately show ?thesis by (rule conjI)
qed

text \<open>
  At a poll interval of zero the code computes no estimate: from single-pass mode,
  circular mode is chosen exactly when the initialisation succeeds, the data mover
  supports it and it was asked for.
\<close>

lemma init_s2mm_zero_interval:
  assumes "sleep_interval_ms s = 0" and "\<not> m_use_circ_buf s"
  shows "m_use_circ_buf (snd (init_s2mm dev circ_buf s)) =
           (fst (init_s2mm dev circ_buf s) \<and> supportsCircBuf dev \<and> circ_buf)"
  using assms reset_s2mm_keeps [of s]
  by (auto simp: init_s2mm_def Let_def)

subsection \<open>Failed initialisation\<close>

lemma init_s2mm_fails:
  assumes "m_trbuf_alloc_sz s = 0 \<or> allocTraceBuf dev (m_trbuf_alloc_sz s) = 0"
  shows "\<not> fst (init_s2mm dev circ_buf s) \<and> status (snd (init_s2mm dev circ_buf s)) = status s
     \<and> (\<forall>c \<in> set (calls (snd (init_s2mm dev circ_buf s))) - set (calls s).
           c \<in> {InitTS2MM 0 (m_trbuf_addr s) False, ResetTS2MM, FreeTraceBuf (m_trbuf s),
                AllocTraceBuf (m_trbuf_alloc_sz s)})"
  using assms reset_s2mm_keeps [of s]
  by (auto simp: init_s2mm_def reset_s2mm_def Let_def)

text \<open>
  Claim C4, as the code has it. On a stream device, when the allocation size is zero or the
  device's buffer allocation fails, \<open>read_trace_init\<close> returns false to its caller, leaves
  the session uninitialised and does not touch the status; besides resetting an old buffer
  and the allocation attempt it calls nothing. A worker started on an uninitialised session
  then returns straight after that failed initialisation: no clock training, no read, no call
  of the logger. \<open>start_offload\<close> itself has set the status to \<open>RUNNING\<close> before the
  worker runs and returns nothing to its caller (it can only end the process instead,
  when its thread member already owns a thread).
\<close>

theorem init_failure_reported_by_init:
  assumes "hasTs2mm dev"
    and "m_trbuf_alloc_sz s = 0 \<or> allocTraceBuf dev (m_trbuf_alloc_sz s) = 0"
  shows "\<not> fst (read_trace_init dev circ_buf s)
     \<and> \<not> m_initialized (snd (read_trace_init dev circ_buf s))
     \<and> status (snd (read_trace_init dev circ_buf s)) = status s
     \<and> (case start_offload type s of
           Inl e \<Rightarrow> offload_thread s \<noteq> None \<and> status s \<noteq> RUNNING
         | Inr s1 \<Rightarrow> status s1 = RUNNING)
     \<and> (\<not> m_initialized s \<longrightarrow>
          offload_device_continuous b dev ticks final s = Some (snd (read_trace_init dev True s)))
     \<and> (\<forall>c \<in> set (calls (snd (read_trace_init dev circ_buf s))) - set (calls s).
           c \<in> {InitTS2MM 0 (m_trbuf_addr s) False, ResetTS2MM, FreeTraceBuf (m_trbuf s),
                AllocTraceBuf (m_trbuf_alloc_sz s)})"
proof -
  let ?s0 = "s\<lparr>m_trbuf_full := False, trbuf_offload_done := False\<rparr>"
  have a: "m_trbuf_alloc_sz ?s0 = 0 \<or> allocTraceBuf dev (m_trbuf_alloc_sz ?s0) = 0"
    using assms(2) by simp
  have r: "read_trace_init dev cb s =
      (fst (init_s2mm dev cb ?s0), (snd (init_s2mm dev cb ?s0))\<lparr>m_initialized := fst (init_s2mm dev cb ?s0)\<rparr>)"
    for cb
    using assms(1) by (simp add: read_trace_init_def Let_def split: prod.splits)
  note f = init_s2mm_fails [OF a]
  have "\<not> m_initialized s \<longrightarrow>
          offload_device_continuous b dev ticks final s = Some (snd (read_trace_init dev True s))"
    using f [of True] by (simp add: offload_device_continuous_def r)
  moreover have "\<not> fst (read_trace_init dev circ_buf s)
     \<and> \<not> m_initialized (snd (read_trace_init dev circ_buf s))
     \<and> status (snd (read_trace_init dev circ_buf s)) = status s"
    using f [of circ_buf] by (simp add: r)
  moreover have "\<forall>c \<in> set (calls (snd (read_trace_init dev circ_buf s))) - set (calls s).
           c \<in> {InitTS2MM 0 (m_trbuf_addr s) False, ResetTS2MM, FreeTraceBuf (m_trbuf s),
                AllocTraceBuf (m_trbuf_alloc_sz s)}"
    using f [of circ_buf] by (simp add: r)
  moreover have "(case start_offload type s of
           Inl e \<Rightarrow> offload_thread s \<noteq> None \<and> status s \<noteq> RUNNING
         | Inr s1 \<Rightarrow> status s1 = RUNNING)"
    by (simp add: start_offload_cases)
  ultimately show ?thesis by blast
qed

text \<open>
  A device that refuses the allocation: the initialisation reports false, and the worker
  returns after the allocation attempt without using its tick.
\<close>

theorem init_failure_reported_by_init_witness:
  "\<not> fst (read_trace_init ex_dev_noalloc True (DeviceTraceOffload_ctor ex_dev_noalloc 100 1024 0 0))
   \<and> offload_device_continuous ex_build ex_dev_noalloc
        [\<lparr>now = 0, rd = ex_idle_in, stop_requested = False\<rparr>] ex_idle_in
        (DeviceTraceOffload_ctor ex_dev_noalloc 100 1024 0 0)
      = Some ((DeviceTraceOffload_ctor ex_dev_noalloc 100 1024 0 0)\<lparr>calls := [AllocTraceBuf 1024]\<rparr>)"
proof -
  have h: "hasTs2mm ex_dev_noalloc" by (simp add: ex_dev_noalloc_def)
  have a: "m_trbuf_alloc_sz (DeviceTraceOffload_ctor ex_dev_noalloc 100 1024 0 0) = 0
     \<or> allocTraceBuf ex_dev_noalloc (m_trbuf_alloc_sz (DeviceTraceOffload_ctor ex_dev_noalloc 100 1024 0 0)) = 0"
    by (simp add: ex_dev_noalloc_def)
  have i: "\<not> m_initialized (DeviceTraceOffload_ctor ex_dev_noalloc 100 1024 0 0)"
    by (simp add: DeviceTraceOffload_ctor_def header_defaults_def)
  have e: "snd (read_trace_init ex_dev_noalloc True (DeviceTraceOffload_ctor ex_dev_noalloc 100 1024 0 0))
      = (DeviceTraceOffload_ctor ex_dev_noalloc 100 1024 0 0)\<lparr>calls := [AllocTraceBuf 1024]\<rparr>"
    by (simp add: read_trace_init_def init_s2mm_def ex_dev_noalloc_def DeviceTraceOffload_ctor_def
        header_defaults_def Let_def)
  from init_failure_reported_by_init [OF h a, of True TRACE ex_build
      "[\<lparr>now = 0, rd = ex_idle_in, stop_requested = False\<rparr>]" ex_idle_in] i e
  show ?thesis by simp
qed

text \<open>
  Against C4 as stated: on an object with allocation size 0, \<open>start_offload\<close> sets the
  status to \<open>RUNNING\<close> before the worker tries to initialise; the worker's initialisation
  fails and it returns at once, and the status is still \<open>RUNNING\<close>.
\<close>

theorem start_with_zero_size_counterexample:
  "m_trbuf_alloc_sz (DeviceTraceOffload_ctor ex_dev_s2mm 100 0 0 0) = 0
   \<and> start_offload TRACE (DeviceTraceOffload_ctor ex_dev_s2mm 100 0 0 0)
       = Inr ((DeviceTraceOffload_ctor ex_dev_s2mm 100 0 0 0)
                \<lparr>status := RUNNING, offload_thread := Some TRACE\<rparr>)
   \<and> offload_device_continuous ex_build ex_dev_s2mm [] ex_idle_in
        ((DeviceTraceOffload_ctor ex_dev_s2mm 100 0 0 0)
           \<lparr>status := RUNNING, offload_thread := Some TRACE\<rparr>)
      = Some ((DeviceTraceOffload_ctor ex_dev_s2mm 100 0 0 0)
                \<lparr>status := RUNNING, offload_thread := Some TRACE\<rparr>)
   \<and> status ((DeviceTraceOffload_ctor ex_dev_s2mm 100 0 0 0)
                \<lparr>status := RUNNING, offload_thread := Some TRACE\<rparr>) = RUNNING
   \<and> \<not> m_initialized ((DeviceTraceOffload_ctor ex_dev_s2mm 100 0 0 0)
                         \<lparr>status := RUNNING, offload_thread := Some TRACE\<rparr>)"
  by (simp add: offload_device_continuous_def read_trace_init_def init_s2mm_def start_offload_def
      ex_dev_s2mm_def DeviceTraceOffload_ctor_def header_defaults_def Let_def)

subsection \<open>The stream reader: basic facts\<close>

lemma ex_session_eq:
  "ex_session = (header_defaults 0)
     \<lparr> sleep_interval_ms := 100, m_trbuf_alloc_sz := 1024, status := RUNNING,
       offload_thread := Some TRACE, m_initialized := True, m_trbuf := 1, m_trbuf_addr := 4096,
       m_use_circ_buf := True, m_circ_buf_cur_rate := 10240,
       calls := [AllocTraceBuf 1024, InitTS2MM 1024 4096 True] \<rparr>"
  by (simp add: ex_session_def read_trace_init_def init_s2mm_def start_offload_def
      DeviceTraceOffload_ctor_def header_defaults_def ex_dev_s2mm_def Let_def)

lemma read_trace_s2mm_skipped: "skipped b inp force s \<Longrightarrow> read_trace_s2mm b inp force s = s"
  by (simp add: skipped_def read_trace_s2mm_def Let_def)

lemma read_trace_s2mm_done:
  "trbuf_offload_done s \<Longrightarrow>
     read_trace_s2mm b inp force s =
       (if skipped b inp force s then s else s\<lparr>m_wordcount_old := wordcount inp\<rparr>)"
  by (simp add: skipped_def read_trace_s2mm_def config_s2mm_reader_def Let_def)

lemma s2mm_cycles_done:
  "trbuf_offload_done s \<Longrightarrow>
     s2mm_cycles b cs s = s\<lparr>m_wordcount_old := m_wordcount_old (s2mm_cycles b cs s)\<rparr>"
proof (induction cs arbitrary: s)
  case Nil
  then show ?case by simp
next
  case (Cons c cs)
  obtain inp force where c: "c = (inp, force)" by (cases c)
  let ?s1 = "read_trace_s2mm b inp force s"
  have s1: "?s1 = s \<or> ?s1 = s\<lparr>m_wordcount_old := wordcount inp\<rparr>"
    using Cons.prems by (simp add: read_trace_s2mm_done)
  then have "trbuf_offload_done ?s1" using Cons.prems by auto
  from Cons.IH [OF this]
  have "s2mm_cycles b cs ?s1 = ?s1\<lparr>m_wordcount_old := m_wordcount_old (s2mm_cycles b cs ?s1)\<rparr>" .
  with s1 show ?case unfolding c by (elim disjE) simp_all
qed

lemma s2mm_cycles_skipped:
  "\<forall>(inp, force) \<in> set cs. skipped b inp force s \<Longrightarrow> s2mm_cycles b cs s = s"
  by (induction cs) (auto simp: read_trace_s2mm_skipped)

lemma s2mm_cycles_append:
  "s2mm_cycles b (cs @ ds) s = s2mm_cycles b ds (s2mm_cycles b cs s)"
  by (induction cs arbitrary: s) auto

lemma read_trace_s2mm_overrun:
  assumes "\<not> skipped b inp force s" and "\<not> trbuf_offload_done s"
    and "overrun b (wordcount inp) s"
  shows "read_trace_s2mm b inp force s =
     stop_offload
       (s\<lparr>m_wordcount_old := wordcount inp, m_trbuf_offset := m_trbuf_sz s,
          trbuf_offload_done := True,
          calls := calls s @ [MessageSendWarning ''XRT'',
                              UserEventMark ''Trace Buffer Overwrite Detected'']\<rparr>)"
  using assms
  by (cases force) (simp_all add: skipped_def overrun_def read_trace_s2mm_def config_s2mm_reader_def Let_def)

lemma read_trace_s2mm_single_pass_done:
  assumes "\<not> skipped b inp force s" and "\<not> trbuf_offload_done s"
    and "\<not> overrun b (wordcount inp) s"
    and "m_trbuf_sz s = m_trbuf_alloc_sz s" and "\<not> m_use_circ_buf s"
  shows "read_trace_s2mm b inp force s =
     stop_offload
       (s\<lparr>m_wordcount_old := wordcount inp, m_trbuf_offset := m_trbuf_sz s,
          trbuf_offload_done := True\<rparr>)"
  using assms
  by (cases force) (simp_all add: skipped_def overrun_def read_trace_s2mm_def config_s2mm_reader_def Let_def)

text \<open>The window an accepted cycle computes: its start, the rollover count, its end.\<close>

lemma config_s2mm_reader_window:
  assumes "\<not> trbuf_offload_done s" and "\<not> overrun b w s"
    and "\<not> (m_trbuf_sz s = m_trbuf_alloc_sz s \<and> \<not> m_use_circ_buf s)"
  shows "config_s2mm_reader b w s =
     (True,
      s\<lparr>m_trbuf_offset := (if m_trbuf_sz s = m_trbuf_alloc_sz s then 0 else m_trbuf_sz s),
        m_rollover_count := (if m_trbuf_sz s = m_trbuf_alloc_sz s
                             then m_rollover_count s + 1 else m_rollover_count s),
        m_trbuf_sz :=
          (let r = (if m_trbuf_sz s = m_trbuf_alloc_sz s
                    then m_rollover_count s + 1 else m_rollover_count s);
               e = w * TRACE_PACKET_SIZE b - r * m_trbuf_alloc_sz s
           in if m_trbuf_alloc_sz s < e then m_trbuf_alloc_sz s else e)\<rparr>)"
  using assms
  by (auto simp: overrun_def config_s2mm_reader_def Let_def)

lemma ex_filled_eq:
  "ex_filled = ex_session
     \<lparr> m_wordcount_old := 252, m_trbuf_offset := 1000, m_trbuf_sz := 1024,
       calls := [AllocTraceBuf 1024, InitTS2MM 1024 4096 True,
                 SyncTraceBuf 1 0 1000, ParseTraceData 1000, ProcessTraceData [1],
                 SyncTraceBuf 1 1000 24, ParseTraceData 24, ProcessTraceData [2]] \<rparr>"
  by (simp add: ex_filled_def ex_session_eq header_defaults_def ex_in_def ex_build_def
      read_trace_s2mm_def config_s2mm_reader_def Let_def)

subsection \<open>Overrun\<close>

lemma overrun_example:
  fixes a :: u64
  assumes "w = 2 * a + 1" and "a < 2 ^ 63"
  shows "a + a < w"
proof -
  have ua: "unat a < 2 ^ 63" using assms(2) by (simp add: word_less_nat_alt)
  then have "unat a + unat a < 2 ^ LENGTH(64)" by simp
  then have e1: "unat (a + a) = unat a + unat a" by (simp only: unat_add_lem)
  with ua have "unat (a + a) + unat (1 :: u64) < 2 ^ LENGTH(64)" by simp
  then have e2: "unat (a + a + 1) = unat (a + a) + unat (1 :: u64)" by (simp only: unat_add_lem)
  have "unat (a + a) < unat (a + a + 1)" by (subst e2) simp
  then have "a + a < a + a + 1" by (simp only: word_less_nat_alt)
  then show ?thesis unfolding assms(1) mult_2 .
qed

text \<open>
  Claim C2, as the code has it. In a stream read cycle that is accepted (forced, or with at
  least the minimum read size of new bytes) while the latch is clear, and in which the
  bytes written since the session started exceed the bytes read so far plus the allocation
  size, the reader sets the latch, sends exactly one warning and one marker event, requests
  the stop (the status becomes \<open>STOPPING\<close> unless it is \<open>STOPPED\<close>) and transfers
  nothing; in every later cycle of the session, forced or not, nothing is transferred and
  nothing more is reported. A byte count of twice the allocation size plus one against one
  allocation size read is such an overrun (for an allocation below \<open>2 ^ 63\<close> bytes).
\<close>

theorem overrun_is_terminal:
  "(\<not> skipped b inp force s \<and> \<not> trbuf_offload_done s \<and> overrun b (wordcount inp) s \<longrightarrow>
      read_trace_s2mm b inp force s =
        stop_offload
          (s\<lparr>m_wordcount_old := wordcount inp, m_trbuf_offset := m_trbuf_sz s,
             trbuf_offload_done := True,
             calls := calls s @ [MessageSendWarning ''XRT'',
                                 UserEventMark ''Trace Buffer Overwrite Detected'']\<rparr>)
      \<and> trbuf_offload_done (s2mm_cycles b cs (read_trace_s2mm b inp force s))
      \<and> calls (s2mm_cycles b cs (read_trace_s2mm b inp force s)) =
          calls s @ [MessageSendWarning ''XRT'', UserEventMark ''Trace Buffer Overwrite Detected'']
      \<and> status (s2mm_cycles b cs (read_trace_s2mm b inp force s)) =
          (if status s = STOPPED then STOPPED else STOPPING))
   \<and> (wordcount inp * TRACE_PACKET_SIZE b = 2 * m_trbuf_alloc_sz s + 1
        \<and> m_rollover_count s * m_trbuf_alloc_sz s + m_trbuf_sz s = m_trbuf_alloc_sz s
        \<and> m_trbuf_alloc_sz s < 2 ^ 63
      \<longrightarrow> overrun b (wordcount inp) s)"
proof (intro conjI impI)
  assume a: "\<not> skipped b inp force s \<and> \<not> trbuf_offload_done s \<and> overrun b (wordcount inp) s"
  let ?s1 = "read_trace_s2mm b inp force s"
  from a show r: "?s1 =
        stop_offload
          (s\<lparr>m_wordcount_old := wordcount inp, m_trbuf_offset := m_trbuf_sz s,
             trbuf_offload_done := True,
             calls := calls s @ [MessageSendWarning ''XRT'',
                                 UserEventMark ''Trace Buffer Overwrite Detected'']\<rparr>)"
    by (simp add: read_trace_s2mm_overrun)
  then have d: "trbuf_offload_done ?s1"
    and c: "calls ?s1 = calls s @ [MessageSendWarning ''XRT'', UserEventMark ''Trace Buffer Overwrite Detected'']"
    and st: "status ?s1 = (if status s = STOPPED then STOPPED else STOPPING)"
    by (simp_all add: stop_offload_def)
  from s2mm_cycles_done [OF d, of b cs]
  have e: "s2mm_cycles b cs ?s1 = ?s1\<lparr>m_wordcount_old := m_wordcount_old (s2mm_cycles b cs ?s1)\<rparr>" .
  show "trbuf_offload_done (s2mm_cycles b cs ?s1)" by (subst e) (simp add: d)
  show "calls (s2mm_cycles b cs ?s1) =
          calls s @ [MessageSendWarning ''XRT'', UserEventMark ''Trace Buffer Overwrite Detected'']"
    by (subst e) (simp add: c)
  show "status (s2mm_cycles b cs ?s1) = (if status s = STOPPED then STOPPED else STOPPING)"
    by (subst e) (simp add: st)
next
  assume "wordcount inp * TRACE_PACKET_SIZE b = 2 * m_trbuf_alloc_sz s + 1
        \<and> m_rollover_count s * m_trbuf_alloc_sz s + m_trbuf_sz s = m_trbuf_alloc_sz s
        \<and> m_trbuf_alloc_sz s < 2 ^ 63"
  then show "overrun b (wordcount inp) s"
    using overrun_example [of "wordcount inp * TRACE_PACKET_SIZE b" "m_trbuf_alloc_sz s"]
    by (simp add: overrun_def)
qed

text \<open>
  With 1024 bytes read of a 1024-byte buffer, a cycle that finds 2560 bytes written latches
  the overrun and the two later cycles add no call. For the count \<open>2 * 1024 + 1\<close> the
  packet size is taken as 1, since with 8-byte packets every byte count is a multiple of 8.
\<close>

theorem overrun_is_terminal_witness:
  "read_trace_s2mm ex_build (ex_in 320 (Some [3])) False ex_filled =
     ex_filled\<lparr>m_wordcount_old := 320, m_trbuf_offset := 1024, trbuf_offload_done := True,
               status := STOPPING,
               calls := calls ex_filled @ [MessageSendWarning ''XRT'',
                                           UserEventMark ''Trace Buffer Overwrite Detected'']\<rparr>
   \<and> calls (s2mm_cycles ex_build [(ex_in 400 (Some [4]), False), (ex_in 400 (Some [5]), True)]
              (read_trace_s2mm ex_build (ex_in 320 (Some [3])) False ex_filled)) =
       calls ex_filled @ [MessageSendWarning ''XRT'', UserEventMark ''Trace Buffer Overwrite Detected'']
   \<and> overrun (ex_build\<lparr>TRACE_PACKET_SIZE := 1\<rparr>) (wordcount (ex_in 2049 None)) ex_filled"
proof -
  have h: "\<not> skipped ex_build (ex_in 320 (Some [3])) False ex_filled
      \<and> \<not> trbuf_offload_done ex_filled \<and> overrun ex_build (wordcount (ex_in 320 (Some [3]))) ex_filled"
    by (simp add: skipped_def overrun_def ex_filled_eq ex_session_eq header_defaults_def
        ex_in_def ex_build_def)
  have st: "status ex_filled = RUNNING" "m_trbuf_sz ex_filled = 1024"
    by (simp_all add: ex_filled_eq ex_session_eq header_defaults_def)
  have p: "wordcount (ex_in 2049 None) * TRACE_PACKET_SIZE (ex_build\<lparr>TRACE_PACKET_SIZE := 1\<rparr>)
        = 2 * m_trbuf_alloc_sz ex_filled + 1
      \<and> m_rollover_count ex_filled * m_trbuf_alloc_sz ex_filled + m_trbuf_sz ex_filled
        = m_trbuf_alloc_sz ex_filled
      \<and> m_trbuf_alloc_sz ex_filled < 2 ^ 63"
    by (simp add: ex_filled_eq ex_session_eq header_defaults_def ex_in_def)
  from overrun_is_terminal [of ex_build "ex_in 320 (Some [3])" False ex_filled
      "[(ex_in 400 (Some [4]), False), (ex_in 400 (Some [5]), True)]"] h
  have r: "read_trace_s2mm ex_build (ex_in 320 (Some [3])) False ex_filled =
        stop_offload
          (ex_filled\<lparr>m_wordcount_old := wordcount (ex_in 320 (Some [3])),
             m_trbuf_offset := m_trbuf_sz ex_filled, trbuf_offload_done := True,
             calls := calls ex_filled @ [MessageSendWarning ''XRT'',
                                 UserEventMark ''Trace Buffer Overwrite Detected'']\<rparr>)"
    and c: "calls (s2mm_cycles ex_build [(ex_in 400 (Some [4]), False), (ex_in 400 (Some [5]), True)]
              (read_trace_s2mm ex_build (ex_in 320 (Some [3])) False ex_filled)) =
       calls ex_filled @ [MessageSendWarning ''XRT'', UserEventMark ''Trace Buffer Overwrite Detected'']"
    by blast+
  have "read_trace_s2mm ex_build (ex_in 320 (Some [3])) False ex_filled =
     ex_filled\<lparr>m_wordcount_old := 320, m_trbuf_offset := 1024, trbuf_offload_done := True,
               status := STOPPING,
               calls := calls ex_filled @ [MessageSendWarning ''XRT'',
                                           UserEventMark ''Trace Buffer Overwrite Detected'']\<rparr>"
    unfolding r using st by (simp add: stop_offload_def ex_in_def)
  note this c
  moreover from overrun_is_terminal [of "ex_build\<lparr>TRACE_PACKET_SIZE := 1\<rparr>" "ex_in 2049 None"
      False ex_filled "[]"] p
  have "overrun (ex_build\<lparr>TRACE_PACKET_SIZE := 1\<rparr>) (wordcount (ex_in 2049 None)) ex_filled"
    by blast
  ultimately show ?thesis by blast
qed

text \<open>
  Against C2 as stated: 1024 bytes are read of a 1024-byte buffer and 2056 bytes are
  written, more than 1024 + 1024; but only 40 bytes are new since the last accepted read,
  so the unforced cycle is skipped: no latch, no report, no stop request.
\<close>

theorem overrun_below_threshold_counterexample:
  "overrun ex_build (wordcount (ex_in 257 (Some [3]))) ex_filled
   \<and> m_rollover_count ex_filled * m_trbuf_alloc_sz ex_filled + m_trbuf_sz ex_filled
       + m_trbuf_alloc_sz ex_filled = 2048
   \<and> wordcount (ex_in 257 (Some [3])) * TRACE_PACKET_SIZE ex_build = 2056
   \<and> read_trace_s2mm ex_build (ex_in 257 (Some [3])) False ex_filled = ex_filled
   \<and> \<not> trbuf_offload_done ex_filled
   \<and> status ex_filled = RUNNING
   \<and> filter is_overrun_report (calls ex_filled) = []"
  by (simp add: overrun_def read_trace_s2mm_def ex_filled_eq ex_session_eq header_defaults_def
      ex_in_def ex_build_def Let_def)

subsection \<open>A failed sync\<close>

lemma read_trace_s2mm_accepted:
  assumes "\<not> skipped b inp force s" and "\<not> trbuf_offload_done s"
    and "\<not> overrun b (wordcount inp) s"
    and "\<not> (m_trbuf_sz s = m_trbuf_alloc_sz s \<and> \<not> m_use_circ_buf s)"
  shows "read_trace_s2mm b inp force s =
     (let s2 = snd (config_s2mm_reader b (wordcount inp) (s\<lparr>m_wordcount_old := wordcount inp\<rparr>));
          nBytes = m_trbuf_sz s2 - m_trbuf_offset s2;
          s3 = s2\<lparr>calls := calls s @ [SyncTraceBuf (m_trbuf s) (m_trbuf_offset s2) nBytes]\<rparr>
      in case host_buf inp of
           None \<Rightarrow> s3
         | Some parsed \<Rightarrow>
             s3\<lparr>m_trace_vector := [],
                calls := calls s3 @ [ParseTraceData nBytes, ProcessTraceData parsed],
                m_trbuf_full := (m_trbuf_sz s2 = m_trbuf_alloc_sz s \<and> \<not> m_use_circ_buf s)
                                \<or> m_trbuf_full s\<rparr>)"
proof -
  let ?s1 = "s\<lparr>m_wordcount_old := wordcount inp\<rparr>"
  have a: "\<not> trbuf_offload_done ?s1" "\<not> overrun b (wordcount inp) ?s1"
    "\<not> (m_trbuf_sz ?s1 = m_trbuf_alloc_sz ?s1 \<and> \<not> m_use_circ_buf ?s1)"
    using assms by (simp_all add: overrun_def)
  note w = config_s2mm_reader_window [OF a]
  have sk: "\<not> (\<not> force \<and> (wordcount inp - m_wordcount_old s) * TRACE_PACKET_SIZE b
              < TS2MM_MIN_READ_SIZE b)"
    using assms(1) by (simp add: skipped_def)
  show ?thesis
    unfolding read_trace_s2mm_def Let_def if_not_P [OF sk] w
    by (cases "host_buf inp") (auto simp: Let_def)
qed

text \<open>
  Claim C7, as the code has it. When a stream read cycle has computed its window and the
  device sync returns no host pointer, the cycle hands nothing to the logger, sets no latch
  and requests no stop. The saved word count and the window have been advanced before the
  sync, so the next cycle that computes a window starts it at the end of the failed
  cycle's window (at 0 after a wrap): the bytes of the failed window are not read again.
\<close>

theorem sync_failure_not_retried:
  assumes "\<not> skipped b inp force s" and "\<not> trbuf_offload_done s"
    and "\<not> overrun b (wordcount inp) s"
    and "\<not> (m_trbuf_sz s = m_trbuf_alloc_sz s \<and> \<not> m_use_circ_buf s)"
    and "host_buf inp = None"
  shows "calls (read_trace_s2mm b inp force s) =
           calls s @ [SyncTraceBuf (m_trbuf s) (m_trbuf_offset (read_trace_s2mm b inp force s))
                        (m_trbuf_sz (read_trace_s2mm b inp force s)
                           - m_trbuf_offset (read_trace_s2mm b inp force s))]
     \<and> \<not> trbuf_offload_done (read_trace_s2mm b inp force s)
     \<and> m_trbuf_full (read_trace_s2mm b inp force s) = m_trbuf_full s
     \<and> status (read_trace_s2mm b inp force s) = status s
     \<and> m_wordcount_old (read_trace_s2mm b inp force s) = wordcount inp
     \<and> (\<not> skipped b inp2 force2 (read_trace_s2mm b inp force s)
          \<and> \<not> overrun b (wordcount inp2) (read_trace_s2mm b inp force s)
          \<and> \<not> (m_trbuf_sz (read_trace_s2mm b inp force s) = m_trbuf_alloc_sz s \<and> \<not> m_use_circ_buf s)
        \<longrightarrow> m_trbuf_offset (read_trace_s2mm b inp2 force2 (read_trace_s2mm b inp force s)) =
              (if m_trbuf_sz (read_trace_s2mm b inp force s) = m_trbuf_alloc_sz s then 0
               else m_trbuf_sz (read_trace_s2mm b inp force s)))"
proof -
  let ?s1 = "s\<lparr>m_wordcount_old := wordcount inp\<rparr>"
  let ?r = "read_trace_s2mm b inp force s"
  have a: "\<not> trbuf_offload_done ?s1" "\<not> overrun b (wordcount inp) ?s1"
    "\<not> (m_trbuf_sz ?s1 = m_trbuf_alloc_sz ?s1 \<and> \<not> m_use_circ_buf ?s1)"
    using assms by (simp_all add: overrun_def)
  note w = config_s2mm_reader_window [OF a]
  have r: "?r = (snd (config_s2mm_reader b (wordcount inp) ?s1))
      \<lparr>calls := calls s @ [SyncTraceBuf (m_trbuf s)
          (m_trbuf_offset (snd (config_s2mm_reader b (wordcount inp) ?s1)))
          (m_trbuf_sz (snd (config_s2mm_reader b (wordcount inp) ?s1))
            - m_trbuf_offset (snd (config_s2mm_reader b (wordcount inp) ?s1)))]\<rparr>"
    using read_trace_s2mm_accepted [OF assms(1-4)] assms(5) by (simp add: Let_def)
  have f: "\<not> trbuf_offload_done ?r" "m_trbuf_full ?r = m_trbuf_full s" "status ?r = status s"
    "m_wordcount_old ?r = wordcount inp" "m_trbuf_alloc_sz ?r = m_trbuf_alloc_sz s"
    "m_use_circ_buf ?r = m_use_circ_buf s"
    unfolding r w using assms(2) by simp_all
  have c: "calls ?r = calls s @ [SyncTraceBuf (m_trbuf s) (m_trbuf_offset ?r)
                        (m_trbuf_sz ?r - m_trbuf_offset ?r)]"
    by (simp add: r)
  have n: "m_trbuf_offset (read_trace_s2mm b inp2 force2 ?r) =
              (if m_trbuf_sz ?r = m_trbuf_alloc_sz s then 0 else m_trbuf_sz ?r)"
    if h: "\<not> skipped b inp2 force2 ?r" "\<not> overrun b (wordcount inp2) ?r"
      "\<not> (m_trbuf_sz ?r = m_trbuf_alloc_sz s \<and> \<not> m_use_circ_buf s)"
  proof -
    let ?r1 = "?r\<lparr>m_wordcount_old := wordcount inp2\<rparr>"
    have h3: "\<not> (m_trbuf_sz ?r = m_trbuf_alloc_sz ?r \<and> \<not> m_use_circ_buf ?r)"
      using h(3) f by simp
    have a2: "\<not> trbuf_offload_done ?r1" "\<not> overrun b (wordcount inp2) ?r1"
      "\<not> (m_trbuf_sz ?r1 = m_trbuf_alloc_sz ?r1 \<and> \<not> m_use_circ_buf ?r1)"
      using f(1) h(2) h3 by (simp_all add: overrun_def)
    have "m_trbuf_offset (snd (config_s2mm_reader b (wordcount inp2) ?r1)) =
        (if m_trbuf_sz ?r = m_trbuf_alloc_sz s then 0 else m_trbuf_sz ?r)"
      unfolding config_s2mm_reader_window [OF a2] using f(5) by simp
    then show ?thesis
      using read_trace_s2mm_accepted [OF h(1) f(1) h(2) h3]
      by (cases "host_buf inp2") (simp_all add: Let_def)
  qed
  from c f n show ?thesis by blast
qed

text \<open>
  The sync of the window [0, 512) fails; the next cycle syncs [512, 1024) and the first
  512 bytes are never handed on.
\<close>

theorem sync_failure_not_retried_witness:
  "calls (read_trace_s2mm ex_build (ex_in 64 None) False ex_session) =
     calls ex_session @ [SyncTraceBuf 1 0 512]
   \<and> \<not> trbuf_offload_done (read_trace_s2mm ex_build (ex_in 64 None) False ex_session)
   \<and> status (read_trace_s2mm ex_build (ex_in 64 None) False ex_session) = RUNNING
   \<and> m_trbuf_offset (read_trace_s2mm ex_build (ex_in 128 (Some [1, 2])) False
        (read_trace_s2mm ex_build (ex_in 64 None) False ex_session)) = 512"
proof -
  have e: "read_trace_s2mm ex_build (ex_in 64 None) False ex_session =
      ex_session\<lparr>m_wordcount_old := 64, m_trbuf_sz := 512,
                 calls := calls ex_session @ [SyncTraceBuf 1 0 512]\<rparr>"
    by (simp add: ex_session_eq header_defaults_def ex_in_def ex_build_def
        read_trace_s2mm_def config_s2mm_reader_def Let_def)
  have h: "\<not> skipped ex_build (ex_in 64 None) False ex_session"
    "\<not> trbuf_offload_done ex_session"
    "\<not> overrun ex_build (wordcount (ex_in 64 None)) ex_session"
    "\<not> (m_trbuf_sz ex_session = m_trbuf_alloc_sz ex_session \<and> \<not> m_use_circ_buf ex_session)"
    "host_buf (ex_in 64 None) = None"
    by (simp_all add: skipped_def overrun_def ex_session_eq header_defaults_def ex_in_def ex_build_def)
  have h2: "\<not> skipped ex_build (ex_in 128 (Some [1, 2])) False
               (read_trace_s2mm ex_build (ex_in 64 None) False ex_session)
     \<and> \<not> overrun ex_build (wordcount (ex_in 128 (Some [1, 2])))
               (read_trace_s2mm ex_build (ex_in 64 None) False ex_session)
     \<and> \<not> (m_trbuf_sz (read_trace_s2mm ex_build (ex_in 64 None) False ex_session)
             = m_trbuf_alloc_sz ex_session \<and> \<not> m_use_circ_buf ex_session)"
    unfolding e
    by (simp add: skipped_def overrun_def ex_session_eq header_defaults_def ex_in_def ex_build_def)
  have v: "m_trbuf_sz (read_trace_s2mm ex_build (ex_in 64 None) False ex_session) = 512"
    "m_trbuf_offset (read_trace_s2mm ex_build (ex_in 64 None) False ex_session) = 0"
    "m_trbuf_alloc_sz ex_session = 1024" "status ex_session = RUNNING" "m_trbuf ex_session = 1"
    unfolding e by (simp_all add: ex_session_eq header_defaults_def)
  from sync_failure_not_retried [OF h, of "ex_in 128 (Some [1, 2])" False] h2 v
  show ?thesis by simp
qed

text \<open>
  Against C7 as stated: after the failed sync of [0, 512) the next, successful cycle
  transfers [512, 1024) only. No call ever hands the first 512 bytes to the logger.
\<close>

theorem failed_window_lost_counterexample:
  "calls (s2mm_cycles ex_build
            [(ex_in 64 None, False), (ex_in 128 (Some [1, 2]), False)] ex_session) =
     calls ex_session @
       [SyncTraceBuf 1 0 512,
        SyncTraceBuf 1 512 512, ParseTraceData 512, ProcessTraceData [1, 2]]"
  by (simp add: ex_session_eq header_defaults_def ex_in_def ex_build_def
      read_trace_s2mm_def config_s2mm_reader_def Let_def)

subsection \<open>Cycles below the read threshold\<close>

text \<open>
  Claim C8, as the code has it. A stream read cycle that is not forced and finds fewer
  bytes written since the last accepted read than the minimum read size returns the state
  as it was: no sync, nothing for the logger, the saved word count, the window, the
  rollover count, the latches and the status unchanged; so does every sequence of such
  cycles. When the next cycle is accepted (forced or at the threshold) with no latch set,
  no overrun and the window not at the end of a single-pass buffer, and its sync returns
  a host pointer, it makes one sync and hands one batch to the logger, for the window from
  the previous window end (0 after a wrap) up to the bytes written in this pass of the
  buffer, cut at the allocation size.
\<close>

theorem below_threshold_is_skipped:
  "(skipped b inp force s \<longrightarrow> read_trace_s2mm b inp force s = s)
   \<and> ((\<forall>(i, f) \<in> set cs. skipped b i f s) \<longrightarrow> s2mm_cycles b cs s = s)
   \<and> ((\<forall>(i, f) \<in> set cs. skipped b i f s)
        \<and> \<not> skipped b inp force s \<and> \<not> trbuf_offload_done s
        \<and> \<not> overrun b (wordcount inp) s
        \<and> \<not> (m_trbuf_sz s = m_trbuf_alloc_sz s \<and> \<not> m_use_circ_buf s)
        \<and> host_buf inp = Some parsed
      \<longrightarrow> m_trbuf_offset (s2mm_cycles b (cs @ [(inp, force)]) s) =
            (if m_trbuf_sz s = m_trbuf_alloc_sz s then 0 else m_trbuf_sz s)
        \<and> m_trbuf_sz (s2mm_cycles b (cs @ [(inp, force)]) s) =
            (let r = (if m_trbuf_sz s = m_trbuf_alloc_sz s
                      then m_rollover_count s + 1 else m_rollover_count s);
                 e = wordcount inp * TRACE_PACKET_SIZE b - r * m_trbuf_alloc_sz s
             in if m_trbuf_alloc_sz s < e then m_trbuf_alloc_sz s else e)
        \<and> calls (s2mm_cycles b (cs @ [(inp, force)]) s) =
            calls s @
              [SyncTraceBuf (m_trbuf s) (m_trbuf_offset (s2mm_cycles b (cs @ [(inp, force)]) s))
                 (m_trbuf_sz (s2mm_cycles b (cs @ [(inp, force)]) s)
                    - m_trbuf_offset (s2mm_cycles b (cs @ [(inp, force)]) s)),
               ParseTraceData
                 (m_trbuf_sz (s2mm_cycles b (cs @ [(inp, force)]) s)
                    - m_trbuf_offset (s2mm_cycles b (cs @ [(inp, force)]) s)),
               ProcessTraceData parsed])"
proof (intro conjI impI)
  assume "skipped b inp force s"
  then show "read_trace_s2mm b inp force s = s" by (rule read_trace_s2mm_skipped)
next
  assume "\<forall>(i, f) \<in> set cs. skipped b i f s"
  then show "s2mm_cycles b cs s = s" by (rule s2mm_cycles_skipped)
next
  assume a: "(\<forall>(i, f) \<in> set cs. skipped b i f s)
        \<and> \<not> skipped b inp force s \<and> \<not> trbuf_offload_done s
        \<and> \<not> overrun b (wordcount inp) s
        \<and> \<not> (m_trbuf_sz s = m_trbuf_alloc_sz s \<and> \<not> m_use_circ_buf s)
        \<and> host_buf inp = Some parsed"
  let ?s1 = "s\<lparr>m_wordcount_old := wordcount inp\<rparr>"
  define cfg where "cfg = snd (config_s2mm_reader b (wordcount inp) ?s1)"
  have run: "s2mm_cycles b (cs @ [(inp, force)]) s = read_trace_s2mm b inp force s"
    using a by (simp add: s2mm_cycles_append s2mm_cycles_skipped)
  have a1: "\<not> trbuf_offload_done ?s1" "\<not> overrun b (wordcount inp) ?s1"
    "\<not> (m_trbuf_sz ?s1 = m_trbuf_alloc_sz ?s1 \<and> \<not> m_use_circ_buf ?s1)"
    using a by (simp_all add: overrun_def)
  have cfg_off: "m_trbuf_offset cfg = (if m_trbuf_sz s = m_trbuf_alloc_sz s then 0 else m_trbuf_sz s)"
    and cfg_sz: "m_trbuf_sz cfg =
            (let r = (if m_trbuf_sz s = m_trbuf_alloc_sz s
                      then m_rollover_count s + 1 else m_rollover_count s);
                 e = wordcount inp * TRACE_PACKET_SIZE b - r * m_trbuf_alloc_sz s
             in if m_trbuf_alloc_sz s < e then m_trbuf_alloc_sz s else e)"
    unfolding cfg_def config_s2mm_reader_window [OF a1] by (simp_all add: Let_def)
  have r: "read_trace_s2mm b inp force s =
      cfg\<lparr>calls := calls s @ [SyncTraceBuf (m_trbuf s) (m_trbuf_offset cfg)
                                 (m_trbuf_sz cfg - m_trbuf_offset cfg)],
          m_trace_vector := [],
          calls := calls s @ [SyncTraceBuf (m_trbuf s) (m_trbuf_offset cfg)
                                 (m_trbuf_sz cfg - m_trbuf_offset cfg)]
                    @ [ParseTraceData (m_trbuf_sz cfg - m_trbuf_offset cfg), ProcessTraceData parsed],
          m_trbuf_full := (m_trbuf_sz cfg = m_trbuf_alloc_sz s \<and> \<not> m_use_circ_buf s)
                                \<or> m_trbuf_full s\<rparr>"
    using a read_trace_s2mm_accepted [of b inp force s]
    by (simp add: Let_def cfg_def)
  have o: "m_trbuf_offset (read_trace_s2mm b inp force s) = m_trbuf_offset cfg"
    and z: "m_trbuf_sz (read_trace_s2mm b inp force s) = m_trbuf_sz cfg"
    and c: "calls (read_trace_s2mm b inp force s) =
       calls s @ [SyncTraceBuf (m_trbuf s) (m_trbuf_offset cfg) (m_trbuf_sz cfg - m_trbuf_offset cfg),
                  ParseTraceData (m_trbuf_sz cfg - m_trbuf_offset cfg), ProcessTraceData parsed]"
    by (simp_all add: r)
  show "m_trbuf_offset (s2mm_cycles b (cs @ [(inp, force)]) s) =
            (if m_trbuf_sz s = m_trbuf_alloc_sz s then 0 else m_trbuf_sz s)"
    unfolding run o cfg_off ..
  show "m_trbuf_sz (s2mm_cycles b (cs @ [(inp, force)]) s) =
            (let r = (if m_trbuf_sz s = m_trbuf_alloc_sz s
                      then m_rollover_count s + 1 else m_rollover_count s);
                 e = wordcount inp * TRACE_PACKET_SIZE b - r * m_trbuf_alloc_sz s
             in if m_trbuf_alloc_sz s < e then m_trbuf_alloc_sz s else e)"
    unfolding run z cfg_sz ..
  show "calls (s2mm_cycles b (cs @ [(inp, force)]) s) =
            calls s @
              [SyncTraceBuf (m_trbuf s) (m_trbuf_offset (s2mm_cycles b (cs @ [(inp, force)]) s))
                 (m_trbuf_sz (s2mm_cycles b (cs @ [(inp, force)]) s)
                    - m_trbuf_offset (s2mm_cycles b (cs @ [(inp, force)]) s)),
               ParseTraceData
                 (m_trbuf_sz (s2mm_cycles b (cs @ [(inp, force)]) s)
                    - m_trbuf_offset (s2mm_cycles b (cs @ [(inp, force)]) s)),
               ProcessTraceData parsed]"
    unfolding run o z c ..
qed

text \<open>
  After a first read of 512 bytes, two cycles with 48 and 288 new bytes are skipped and
  the cycle that finds 512 new bytes hands them on in one batch.
\<close>

theorem below_threshold_is_skipped_witness:
  "s2mm_cycles ex_build [(ex_in 70 (Some [2]), False), (ex_in 100 (Some [3]), False)]
       (read_trace_s2mm ex_build (ex_in 64 (Some [1])) False ex_session)
     = read_trace_s2mm ex_build (ex_in 64 (Some [1])) False ex_session
   \<and> calls (s2mm_cycles ex_build
        ([(ex_in 70 (Some [2]), False), (ex_in 100 (Some [3]), False)] @ [(ex_in 128 (Some [4]), False)])
        (read_trace_s2mm ex_build (ex_in 64 (Some [1])) False ex_session))
     = calls (read_trace_s2mm ex_build (ex_in 64 (Some [1])) False ex_session)
         @ [SyncTraceBuf 1 512 512, ParseTraceData 512, ProcessTraceData [4]]"
proof -
  let ?s = "read_trace_s2mm ex_build (ex_in 64 (Some [1])) False ex_session"
  have e: "?s = ex_session\<lparr>m_wordcount_old := 64, m_trbuf_sz := 512,
       calls := calls ex_session @ [SyncTraceBuf 1 0 512, ParseTraceData 512, ProcessTraceData [1]]\<rparr>"
    by (simp add: ex_session_eq header_defaults_def ex_in_def ex_build_def
        read_trace_s2mm_def config_s2mm_reader_def Let_def)
  have sk: "\<forall>(i, f) \<in> set [(ex_in 70 (Some [2]), False), (ex_in 100 (Some [3]), False)].
              skipped ex_build i f ?s"
    unfolding e by (simp add: skipped_def ex_session_eq header_defaults_def ex_in_def ex_build_def)
  have h: "\<not> skipped ex_build (ex_in 128 (Some [4])) False ?s \<and> \<not> trbuf_offload_done ?s
        \<and> \<not> overrun ex_build (wordcount (ex_in 128 (Some [4]))) ?s
        \<and> \<not> (m_trbuf_sz ?s = m_trbuf_alloc_sz ?s \<and> \<not> m_use_circ_buf ?s)
        \<and> host_buf (ex_in 128 (Some [4])) = Some [4]"
    unfolding e
    by (simp add: skipped_def overrun_def ex_session_eq header_defaults_def ex_in_def ex_build_def)
  note inst = below_threshold_is_skipped [of ex_build "ex_in 128 (Some [4])" False ?s
      "[(ex_in 70 (Some [2]), False), (ex_in 100 (Some [3]), False)]" "[4]"]
  from inst sk have one: "s2mm_cycles ex_build
      [(ex_in 70 (Some [2]), False), (ex_in 100 (Some [3]), False)] ?s = ?s"
    by blast
  let ?r = "s2mm_cycles ex_build
        ([(ex_in 70 (Some [2]), False), (ex_in 100 (Some [3]), False)] @ [(ex_in 128 (Some [4]), False)]) ?s"
  from inst sk h have o: "m_trbuf_offset ?r = (if m_trbuf_sz ?s = m_trbuf_alloc_sz ?s then 0 else m_trbuf_sz ?s)"
    and z: "m_trbuf_sz ?r =
            (let r = (if m_trbuf_sz ?s = m_trbuf_alloc_sz ?s
                      then m_rollover_count ?s + 1 else m_rollover_count ?s);
                 e = wordcount (ex_in 128 (Some [4])) * TRACE_PACKET_SIZE ex_build - r * m_trbuf_alloc_sz ?s
             in if m_trbuf_alloc_sz ?s < e then m_trbuf_alloc_sz ?s else e)"
    and c: "calls ?r = calls ?s @
              [SyncTraceBuf (m_trbuf ?s) (m_trbuf_offset ?r) (m_trbuf_sz ?r - m_trbuf_offset ?r),
               ParseTraceData (m_trbuf_sz ?r - m_trbuf_offset ?r), ProcessTraceData [4]]"
    by blast+
  have vs: "m_trbuf_sz ?s = 512" "m_trbuf_alloc_sz ?s = 1024" "m_rollover_count ?s = 0"
    and t: "m_trbuf ?s = 1"
    unfolding e by (simp_all add: ex_session_eq header_defaults_def)
  have o': "m_trbuf_offset ?r = 512" unfolding o vs by simp
  have z': "m_trbuf_sz ?r = 1024" unfolding z vs by (simp add: ex_in_def ex_build_def)
  have "calls ?r = calls ?s @ [SyncTraceBuf 1 512 512, ParseTraceData 512, ProcessTraceData [4]]"
    unfolding c o' z' t by simp
  with one show ?thesis by blast
qed

text \<open>
  Against C8 as stated: 600 bytes accumulate over two skipped cycles and the cycle that
  crosses the threshold; that cycle hands on only the 24 bytes up to the end of the
  buffer, and the other 576 bytes follow in a second batch, after the wrap.
\<close>

theorem crossing_batch_cut_counterexample:
  "calls (s2mm_cycles ex_build
            [(ex_in 125 (Some [1]), False), (ex_in 130 (Some [2]), False),
             (ex_in 140 (Some [3]), False), (ex_in 200 (Some [4]), False),
             (ex_in 200 (Some [5]), True)] ex_session) =
     calls ex_session @
       [SyncTraceBuf 1 0 1000, ParseTraceData 1000, ProcessTraceData [1],
        SyncTraceBuf 1 1000 24, ParseTraceData 24, ProcessTraceData [4],
        SyncTraceBuf 1 0 576, ParseTraceData 576, ProcessTraceData [5]]
   \<and> (200 - 125) * TRACE_PACKET_SIZE ex_build = 600"
  by (simp add: ex_session_eq header_defaults_def ex_in_def ex_build_def
      read_trace_s2mm_def config_s2mm_reader_def Let_def)

subsection \<open>The window stays in the allocation\<close>

lemma window_end_unat:
  fixes w p r a :: u64
  assumes fit: "unat w * unat p < 2 ^ 64" and le: "unat r * unat a \<le> unat w * unat p"
  shows "unat (if a < w * p - r * a then a else w * p - r * a) =
           min (unat w * unat p - unat r * unat a) (unat a)"
proof -
  have "unat w * unat p < 2 ^ LENGTH(64)" using fit by simp
  then have wp: "unat (w * p) = unat w * unat p" by (simp only: unat_mult_lem)
  have "unat r * unat a < 2 ^ LENGTH(64)" using fit le by simp
  then have ra: "unat (r * a) = unat r * unat a" by (simp only: unat_mult_lem)
  have "r * a \<le> w * p" using le by (simp only: word_le_nat_alt wp ra)
  then have sub: "unat (w * p - r * a) = unat w * unat p - unat r * unat a"
    by (simp only: unat_sub wp ra)
  show ?thesis
    by (simp only: word_less_nat_alt sub min_def split: if_split) auto
qed

lemma roll_succ_unat:
  fixes r a :: u64
  assumes "(unat r + 1) * unat a \<le> n" and "n < 2 ^ 64" and "a \<noteq> 0"
  shows "unat (r + 1) = unat r + 1"
proof -
  have "1 \<le> unat a" using assms(3) by (simp add: unat_gt_0 Suc_le_eq)
  then have "(unat r + 1) * 1 \<le> (unat r + 1) * unat a" by (rule mult_le_mono2)
  with assms(1,2) have "unat r + unat (1 :: u64) < 2 ^ LENGTH(64)" by simp
  then have "unat (r + 1) = unat r + unat (1 :: u64)" by (simp only: unat_add_lem)
  then show ?thesis by simp
qed

lemma read_trace_s2mm_accepted_fields:
  assumes "\<not> skipped b inp force s" and "\<not> trbuf_offload_done s"
    and "\<not> overrun b (wordcount inp) s"
    and "\<not> (m_trbuf_sz s = m_trbuf_alloc_sz s \<and> \<not> m_use_circ_buf s)"
  shows "m_trbuf_offset (read_trace_s2mm b inp force s) =
           (if m_trbuf_sz s = m_trbuf_alloc_sz s then 0 else m_trbuf_sz s)"
    and "m_rollover_count (read_trace_s2mm b inp force s) =
           (if m_trbuf_sz s = m_trbuf_alloc_sz s then m_rollover_count s + 1 else m_rollover_count s)"
    and "m_trbuf_sz (read_trace_s2mm b inp force s) =
           (if m_trbuf_alloc_sz s
                 < wordcount inp * TRACE_PACKET_SIZE b
                   - (if m_trbuf_sz s = m_trbuf_alloc_sz s
                      then m_rollover_count s + 1 else m_rollover_count s) * m_trbuf_alloc_sz s
            then m_trbuf_alloc_sz s
            else wordcount inp * TRACE_PACKET_SIZE b
                   - (if m_trbuf_sz s = m_trbuf_alloc_sz s
                      then m_rollover_count s + 1 else m_rollover_count s) * m_trbuf_alloc_sz s)"
    and "m_wordcount_old (read_trace_s2mm b inp force s) = wordcount inp"
    and "\<not> trbuf_offload_done (read_trace_s2mm b inp force s)"
proof -
  let ?s1 = "s\<lparr>m_wordcount_old := wordcount inp\<rparr>"
  have a: "\<not> trbuf_offload_done ?s1" "\<not> overrun b (wordcount inp) ?s1"
    "\<not> (m_trbuf_sz ?s1 = m_trbuf_alloc_sz ?s1 \<and> \<not> m_use_circ_buf ?s1)"
    using assms by (simp_all add: overrun_def)
  note r = read_trace_s2mm_accepted [OF assms] config_s2mm_reader_window [OF a]
  show "m_trbuf_offset (read_trace_s2mm b inp force s) =
           (if m_trbuf_sz s = m_trbuf_alloc_sz s then 0 else m_trbuf_sz s)"
    unfolding r by (cases "host_buf inp") (simp_all add: Let_def)
  show "m_rollover_count (read_trace_s2mm b inp force s) =
           (if m_trbuf_sz s = m_trbuf_alloc_sz s then m_rollover_count s + 1 else m_rollover_count s)"
    unfolding r by (cases "host_buf inp") (simp_all add: Let_def)
  show "m_trbuf_sz (read_trace_s2mm b inp force s) =
           (if m_trbuf_alloc_sz s
                 < wordcount inp * TRACE_PACKET_SIZE b
                   - (if m_trbuf_sz s = m_trbuf_alloc_sz s
                      then m_rollover_count s + 1 else m_rollover_count s) * m_trbuf_alloc_sz s
            then m_trbuf_alloc_sz s
            else wordcount inp * TRACE_PACKET_SIZE b
                   - (if m_trbuf_sz s = m_trbuf_alloc_sz s
                      then m_rollover_count s + 1 else m_rollover_count s) * m_trbuf_alloc_sz s)"
    unfolding r by (cases "host_buf inp") (simp_all add: Let_def)
  show "m_wordcount_old (read_trace_s2mm b inp force s) = wordcount inp"
    unfolding r by (cases "host_buf inp") (simp_all add: Let_def)
  show "\<not> trbuf_offload_done (read_trace_s2mm b inp force s)"
    unfolding r using assms(2) by (cases "host_buf inp") (simp_all add: Let_def)
qed

lemma read_trace_s2mm_consts:
  "m_trbuf_alloc_sz (read_trace_s2mm b inp force s) = m_trbuf_alloc_sz s
   \<and> m_use_circ_buf (read_trace_s2mm b inp force s) = m_use_circ_buf s"
  by (simp add: read_trace_s2mm_def config_s2mm_reader_def stop_offload_def Let_def
      split: option.splits)

lemma s2mm_step_window:
  assumes inv: "s2mm_inv b s" and nz: "m_trbuf_alloc_sz s \<noteq> 0"
    and mono: "m_wordcount_old s \<le> wordcount inp"
    and fit: "unat (wordcount inp) * unat (TRACE_PACKET_SIZE b) < 2 ^ 64"
    and acc: "\<not> skipped b inp force s" "\<not> trbuf_offload_done s"
      "\<not> overrun b (wordcount inp) s"
      "\<not> (m_trbuf_sz s = m_trbuf_alloc_sz s \<and> \<not> m_use_circ_buf s)"
  shows "s2mm_inv b (read_trace_s2mm b inp force s)
    \<and> (if m_trbuf_sz s = m_trbuf_alloc_sz s
        then unat (m_rollover_count (read_trace_s2mm b inp force s)) = unat (m_rollover_count s) + 1
             \<and> m_trbuf_offset (read_trace_s2mm b inp force s) = 0
        else m_rollover_count (read_trace_s2mm b inp force s) = m_rollover_count s)"
proof -
  let ?s' = "read_trace_s2mm b inp force s"
  define W where "W = unat (m_wordcount_old s)"
  define W' where "W' = unat (wordcount inp)"
  define P where "P = unat (TRACE_PACKET_SIZE b)"
  define A where "A = unat (m_trbuf_alloc_sz s)"
  define R where "R = unat (m_rollover_count s)"
  define Z where "Z = unat (m_trbuf_sz s)"
  note f = read_trace_s2mm_accepted_fields [OF acc]
  have al: "m_trbuf_alloc_sz ?s' = m_trbuf_alloc_sz s"
    using read_trace_s2mm_consts [of b inp force s] by simp
  from inv acc(2) have ra: "R * A \<le> W * P" and z: "Z = min (W * P - R * A) A"
    by (simp_all add: s2mm_inv_def W_def P_def A_def R_def Z_def)
  have "W \<le> W'" using mono by (simp add: word_le_nat_alt W_def W'_def)
  then have wp: "W * P \<le> W' * P" by (rule mult_le_mono1)
  have fit': "W' * P < 2 ^ 64" using fit by (simp add: W'_def P_def)
  have Apos: "0 < A" using nz by (simp add: A_def unat_gt_0)
  show ?thesis
  proof (cases "m_trbuf_sz s = m_trbuf_alloc_sz s")
    case True
    then have "Z = A" by (simp add: Z_def A_def)
    with z have "A \<le> W * P - R * A" by simp
    with Apos have "(R + 1) * A \<le> W * P" by simp
    then have le1: "(R + 1) * A \<le> W' * P" using wp by (rule order_trans)
    have r1: "unat (m_rollover_count s + 1) = R + 1"
      using roll_succ_unat [of "m_rollover_count s" "m_trbuf_alloc_sz s" "W' * P"] le1 fit' nz
      by (simp add: R_def A_def)
    have le2: "unat (m_rollover_count s + 1) * unat (m_trbuf_alloc_sz s)
        \<le> unat (wordcount inp) * unat (TRACE_PACKET_SIZE b)"
      using le1 by (simp add: r1 A_def W'_def P_def)
    have roll: "m_rollover_count ?s' = m_rollover_count s + 1" using f(2) True by simp
    have off: "m_trbuf_offset ?s' = 0" using f(1) True by simp
    have "m_trbuf_sz ?s' =
        (if m_trbuf_alloc_sz s < wordcount inp * TRACE_PACKET_SIZE b
              - (m_rollover_count s + 1) * m_trbuf_alloc_sz s
         then m_trbuf_alloc_sz s
         else wordcount inp * TRACE_PACKET_SIZE b - (m_rollover_count s + 1) * m_trbuf_alloc_sz s)"
      using f(3) True by simp
    then have sz: "unat (m_trbuf_sz ?s') = min (W' * P - (R + 1) * A) A"
      using window_end_unat [OF fit le2] by (simp add: r1 A_def W'_def P_def)
    have "s2mm_inv b ?s'"
      unfolding s2mm_inv_def f(4) roll off al
      using fit sz le2 by (simp add: word_le_nat_alt r1 A_def W'_def P_def)
    with roll off r1 True show ?thesis by (simp add: R_def)
  next
    case False
    have "R * A \<le> W' * P" using ra wp by (rule order_trans)
    then have le2: "unat (m_rollover_count s) * unat (m_trbuf_alloc_sz s)
        \<le> unat (wordcount inp) * unat (TRACE_PACKET_SIZE b)"
      by (simp only: R_def A_def W'_def P_def)
    have roll: "m_rollover_count ?s' = m_rollover_count s" using f(2) False by simp
    have off: "m_trbuf_offset ?s' = m_trbuf_sz s" using f(1) False by simp
    have "m_trbuf_sz ?s' =
        (if m_trbuf_alloc_sz s < wordcount inp * TRACE_PACKET_SIZE b
              - m_rollover_count s * m_trbuf_alloc_sz s
         then m_trbuf_alloc_sz s
         else wordcount inp * TRACE_PACKET_SIZE b - m_rollover_count s * m_trbuf_alloc_sz s)"
      using f(3) False by simp
    then have sz: "unat (m_trbuf_sz ?s') = min (W' * P - R * A) A"
      using window_end_unat [OF fit le2] by (simp add: R_def A_def W'_def P_def)
    have d: "W * P - R * A \<le> W' * P - R * A" using wp by (rule diff_le_mono)
    have "Z \<le> min (W' * P - R * A) A" unfolding z by (rule min.mono [OF d order_refl])
    then have zz: "unat (m_trbuf_sz s) \<le> unat (m_trbuf_sz ?s')" by (simp add: sz Z_def)
    have "s2mm_inv b ?s'"
      unfolding s2mm_inv_def f(4) roll off al
      using fit sz le2 zz by (simp add: word_le_nat_alt R_def A_def W'_def P_def)
    with roll False show ?thesis by simp
  qed
qed

lemma s2mm_step:
  assumes inv: "s2mm_inv b s" and nz: "m_trbuf_alloc_sz s \<noteq> 0"
    and mono: "m_wordcount_old s \<le> wordcount inp"
    and fit: "unat (wordcount inp) * unat (TRACE_PACKET_SIZE b) < 2 ^ 64"
  shows "s2mm_inv b (read_trace_s2mm b inp force s)
    \<and> m_wordcount_old (read_trace_s2mm b inp force s) \<le> wordcount inp
    \<and> (if \<not> skipped b inp force s \<and> \<not> trbuf_offload_done s
           \<and> \<not> overrun b (wordcount inp) s
           \<and> m_trbuf_sz s = m_trbuf_alloc_sz s \<and> m_use_circ_buf s
        then unat (m_rollover_count (read_trace_s2mm b inp force s)) = unat (m_rollover_count s) + 1
             \<and> m_trbuf_offset (read_trace_s2mm b inp force s) = 0
        else m_rollover_count (read_trace_s2mm b inp force s) = m_rollover_count s)"
proof -
  let ?s' = "read_trace_s2mm b inp force s"
  consider (skip) "skipped b inp force s"
    | (latched) "\<not> skipped b inp force s" "trbuf_offload_done s"
    | (over) "\<not> skipped b inp force s" "\<not> trbuf_offload_done s" "overrun b (wordcount inp) s"
    | (single) "\<not> skipped b inp force s" "\<not> trbuf_offload_done s"
        "\<not> overrun b (wordcount inp) s" "m_trbuf_sz s = m_trbuf_alloc_sz s" "\<not> m_use_circ_buf s"
    | (win) "\<not> skipped b inp force s" "\<not> trbuf_offload_done s"
        "\<not> overrun b (wordcount inp) s"
        "\<not> (m_trbuf_sz s = m_trbuf_alloc_sz s \<and> \<not> m_use_circ_buf s)"
    by blast
  then show ?thesis
  proof cases
    case skip
    then have "?s' = s" by (rule read_trace_s2mm_skipped)
    with inv mono skip show ?thesis by simp
  next
    case latched
    then have "?s' = s\<lparr>m_wordcount_old := wordcount inp\<rparr>"
      by (simp add: read_trace_s2mm_done)
    with inv fit latched show ?thesis by (simp add: s2mm_inv_def)
  next
    case over
    from read_trace_s2mm_overrun [OF over] inv fit over show ?thesis
      by (simp add: s2mm_inv_def stop_offload_def)
  next
    case single
    from read_trace_s2mm_single_pass_done [OF single] inv fit single show ?thesis
      by (simp add: s2mm_inv_def stop_offload_def)
  next
    case win
    from s2mm_step_window [OF inv nz mono fit win] read_trace_s2mm_accepted_fields(4) [OF win] win
    show ?thesis by auto
  qed
qed

lemma s2mm_cycles_inv:
  assumes "s2mm_inv b s" and "m_trbuf_alloc_sz s \<noteq> 0" and "m_wordcount_old s \<le> w"
    and "counter_ok b w cs"
  shows "s2mm_inv b (s2mm_cycles b cs s)
    \<and> m_trbuf_alloc_sz (s2mm_cycles b cs s) = m_trbuf_alloc_sz s
    \<and> (\<forall>inp force. counter_ok b w (cs @ [(inp, force)]) \<longrightarrow>
          m_wordcount_old (s2mm_cycles b cs s) \<le> wordcount inp
          \<and> unat (wordcount inp) * unat (TRACE_PACKET_SIZE b) < 2 ^ 64)"
  using assms
proof (induction cs arbitrary: s w)
  case Nil
  then show ?case by auto
next
  case (Cons c cs)
  obtain i f where c: "c = (i, f)" by (cases c)
  from Cons.prems(4) have k: "w \<le> wordcount i"
    "unat (wordcount i) * unat (TRACE_PACKET_SIZE b) < 2 ^ 64" "counter_ok b (wordcount i) cs"
    by (simp_all add: c)
  from Cons.prems(3) k(1) have m: "m_wordcount_old s \<le> wordcount i" by simp
  note st = s2mm_step [OF Cons.prems(1,2) m k(2), of f]
  have al: "m_trbuf_alloc_sz (read_trace_s2mm b i f s) = m_trbuf_alloc_sz s"
    using read_trace_s2mm_consts [of b i f s] by simp
  from st al Cons.prems(2)
  have ih: "s2mm_inv b (s2mm_cycles b cs (read_trace_s2mm b i f s))
    \<and> m_trbuf_alloc_sz (s2mm_cycles b cs (read_trace_s2mm b i f s))
        = m_trbuf_alloc_sz (read_trace_s2mm b i f s)
    \<and> (\<forall>inp force. counter_ok b (wordcount i) (cs @ [(inp, force)]) \<longrightarrow>
          m_wordcount_old (s2mm_cycles b cs (read_trace_s2mm b i f s)) \<le> wordcount inp
          \<and> unat (wordcount inp) * unat (TRACE_PACKET_SIZE b) < 2 ^ 64)"
    by (intro Cons.IH [OF _ _ _ k(3)]) simp_all
  with al show ?case by (simp add: c)
qed

lemma counter_ok_prefix: "counter_ok b w (cs @ ds) \<Longrightarrow> counter_ok b w cs"
  by (induction cs arbitrary: w) auto

text \<open>
  The first session of an object keeps the window invariant. Take a stream session as it is
  after construction and initialisation (empty
  window, no rollover, no latch, non-zero allocation size) and any sequence of read cycles
  in which the device's word counter never decreases and its byte count fits in 64 bits.
  After every cycle the window end (the member \<open>m_trbuf_sz\<close>) is at most the allocation
  size and the window start (\<open>m_trbuf_offset\<close>) at most the window end, so that the start
  plus the length of the window is at most the allocation size. In a cycle that is accepted, finds no latch and no overrun, and
  advances the window start to exactly the allocation size in circular mode, the rollover
  count goes up by exactly one (without wrapping) and the window start is 0; in every other
  cycle the rollover count is unchanged.
\<close>

lemma window_within_allocation:
  assumes "m_wordcount_old s = 0" and "m_trbuf_sz s = 0" and "m_trbuf_offset s = 0"
    and "m_rollover_count s = 0" and "\<not> trbuf_offload_done s"
    and "m_trbuf_alloc_sz s \<noteq> 0"
    and "counter_ok b 0 (cs @ [(inp, force)])"
  shows "m_trbuf_sz (s2mm_cycles b (cs @ [(inp, force)]) s) \<le> m_trbuf_alloc_sz s
   \<and> m_trbuf_offset (s2mm_cycles b (cs @ [(inp, force)]) s)
       \<le> m_trbuf_sz (s2mm_cycles b (cs @ [(inp, force)]) s)
   \<and> unat (m_trbuf_offset (s2mm_cycles b (cs @ [(inp, force)]) s))
       + unat (m_trbuf_sz (s2mm_cycles b (cs @ [(inp, force)]) s)
                - m_trbuf_offset (s2mm_cycles b (cs @ [(inp, force)]) s))
       \<le> unat (m_trbuf_alloc_sz s)
   \<and> (if \<not> skipped b inp force (s2mm_cycles b cs s)
          \<and> \<not> trbuf_offload_done (s2mm_cycles b cs s)
          \<and> \<not> overrun b (wordcount inp) (s2mm_cycles b cs s)
          \<and> m_trbuf_sz (s2mm_cycles b cs s) = m_trbuf_alloc_sz s
          \<and> m_use_circ_buf (s2mm_cycles b cs s)
       then unat (m_rollover_count (s2mm_cycles b (cs @ [(inp, force)]) s))
              = unat (m_rollover_count (s2mm_cycles b cs s)) + 1
            \<and> m_trbuf_offset (s2mm_cycles b (cs @ [(inp, force)]) s) = 0
       else m_rollover_count (s2mm_cycles b (cs @ [(inp, force)]) s)
              = m_rollover_count (s2mm_cycles b cs s))"
proof -
  let ?s1 = "s2mm_cycles b cs s"
  have run: "s2mm_cycles b (cs @ [(inp, force)]) s = read_trace_s2mm b inp force ?s1"
    by (simp add: s2mm_cycles_append)
  have inv0: "s2mm_inv b s" using assms(1-5) by (simp add: s2mm_inv_def)
  have ok: "counter_ok b 0 cs" using assms(7) by (rule counter_ok_prefix)
  have w0: "m_wordcount_old s \<le> 0" using assms(1) by simp
  from s2mm_cycles_inv [OF inv0 assms(6) w0 ok] assms(7)
  have inv1: "s2mm_inv b ?s1" and al: "m_trbuf_alloc_sz ?s1 = m_trbuf_alloc_sz s"
    and mono: "m_wordcount_old ?s1 \<le> wordcount inp"
    and fit: "unat (wordcount inp) * unat (TRACE_PACKET_SIZE b) < 2 ^ 64"
    by blast+
  have nz: "m_trbuf_alloc_sz ?s1 \<noteq> 0" using al assms(6) by simp
  note st = s2mm_step [OF inv1 nz mono fit, of force]
  have al2: "m_trbuf_alloc_sz (read_trace_s2mm b inp force ?s1) = m_trbuf_alloc_sz s"
    using read_trace_s2mm_consts [of b inp force ?s1] al by simp
  from st have "s2mm_inv b (read_trace_s2mm b inp force ?s1)" by blast
  then have w1: "m_trbuf_sz (read_trace_s2mm b inp force ?s1) \<le> m_trbuf_alloc_sz s"
    and w2: "m_trbuf_offset (read_trace_s2mm b inp force ?s1)
          \<le> m_trbuf_sz (read_trace_s2mm b inp force ?s1)"
    by (simp_all add: s2mm_inv_def al2)
  from w2 have "unat (m_trbuf_sz (read_trace_s2mm b inp force ?s1)
                  - m_trbuf_offset (read_trace_s2mm b inp force ?s1))
      = unat (m_trbuf_sz (read_trace_s2mm b inp force ?s1))
        - unat (m_trbuf_offset (read_trace_s2mm b inp force ?s1))"
    by (rule unat_sub)
  with w1 w2 have "unat (m_trbuf_offset (read_trace_s2mm b inp force ?s1))
       + unat (m_trbuf_sz (read_trace_s2mm b inp force ?s1)
                - m_trbuf_offset (read_trace_s2mm b inp force ?s1))
       \<le> unat (m_trbuf_alloc_sz s)"
    by (simp add: word_le_nat_alt)
  moreover note w1 w2
  moreover from st have "(if \<not> skipped b inp force ?s1 \<and> \<not> trbuf_offload_done ?s1
           \<and> \<not> overrun b (wordcount inp) ?s1
           \<and> m_trbuf_sz ?s1 = m_trbuf_alloc_sz s \<and> m_use_circ_buf ?s1
        then unat (m_rollover_count (read_trace_s2mm b inp force ?s1)) = unat (m_rollover_count ?s1) + 1
             \<and> m_trbuf_offset (read_trace_s2mm b inp force ?s1) = 0
        else m_rollover_count (read_trace_s2mm b inp force ?s1) = m_rollover_count ?s1)"
    unfolding al by blast
  ultimately show ?thesis unfolding run by blast
qed

text \<open>
  The example session read at 512, 1024 and 1536 bytes: the third cycle finds the window
  start at the allocation size, counts one rollover and starts again at 0.
\<close>

lemma window_within_allocation_example:
  "counter_ok ex_build 0
     ([(ex_in 64 (Some [1]), False), (ex_in 128 (Some [2]), False)] @ [(ex_in 192 (Some [3]), False)])
   \<and> m_trbuf_sz (s2mm_cycles ex_build [(ex_in 64 (Some [1]), False), (ex_in 128 (Some [2]), False)]
                   ex_session) = m_trbuf_alloc_sz ex_session
   \<and> m_rollover_count (s2mm_cycles ex_build
        ([(ex_in 64 (Some [1]), False), (ex_in 128 (Some [2]), False)] @ [(ex_in 192 (Some [3]), False)])
        ex_session) = 1
   \<and> m_trbuf_offset (s2mm_cycles ex_build
        ([(ex_in 64 (Some [1]), False), (ex_in 128 (Some [2]), False)] @ [(ex_in 192 (Some [3]), False)])
        ex_session) = 0
   \<and> m_trbuf_sz (s2mm_cycles ex_build
        ([(ex_in 64 (Some [1]), False), (ex_in 128 (Some [2]), False)] @ [(ex_in 192 (Some [3]), False)])
        ex_session) \<le> m_trbuf_alloc_sz ex_session"
proof -
  let ?cs = "[(ex_in 64 (Some [1]), False), (ex_in 128 (Some [2]), False)]"
  let ?r = "s2mm_cycles ex_build (?cs @ [(ex_in 192 (Some [3]), False)]) ex_session"
  have h: "m_wordcount_old ex_session = 0" "m_trbuf_sz ex_session = 0"
    "m_trbuf_offset ex_session = 0" "m_rollover_count ex_session = 0"
    "\<not> trbuf_offload_done ex_session" "m_trbuf_alloc_sz ex_session \<noteq> 0"
    by (simp_all add: ex_session_eq header_defaults_def)
  have k: "counter_ok ex_build 0 (?cs @ [(ex_in 192 (Some [3]), False)])"
    by (simp add: ex_in_def ex_build_def)
  have e: "s2mm_cycles ex_build ?cs ex_session =
      ex_session\<lparr>m_wordcount_old := 128, m_trbuf_offset := 512, m_trbuf_sz := 1024,
        calls := calls ex_session @
          [SyncTraceBuf 1 0 512, ParseTraceData 512, ProcessTraceData [1],
           SyncTraceBuf 1 512 512, ParseTraceData 512, ProcessTraceData [2]]\<rparr>"
    by (simp add: ex_session_eq header_defaults_def ex_in_def ex_build_def
        read_trace_s2mm_def config_s2mm_reader_def Let_def)
  have c: "\<not> skipped ex_build (ex_in 192 (Some [3])) False (s2mm_cycles ex_build ?cs ex_session)
     \<and> \<not> trbuf_offload_done (s2mm_cycles ex_build ?cs ex_session)
     \<and> \<not> overrun ex_build (wordcount (ex_in 192 (Some [3]))) (s2mm_cycles ex_build ?cs ex_session)
     \<and> m_trbuf_sz (s2mm_cycles ex_build ?cs ex_session) = m_trbuf_alloc_sz ex_session
     \<and> m_use_circ_buf (s2mm_cycles ex_build ?cs ex_session)"
    unfolding e
    by (simp add: skipped_def overrun_def ex_session_eq header_defaults_def ex_in_def ex_build_def)
  have r0: "m_rollover_count (s2mm_cycles ex_build ?cs ex_session) = 0"
    unfolding e by (simp add: ex_session_eq header_defaults_def)
  note inst = window_within_allocation [OF h k]
  from inst have sz: "m_trbuf_sz ?r \<le> m_trbuf_alloc_sz ex_session" by (rule conjunct1)
  from inst c have u: "unat (m_rollover_count ?r) = unat (m_rollover_count (s2mm_cycles ex_build ?cs ex_session)) + 1"
    and off: "m_trbuf_offset ?r = 0"
    by presburger+
  have "unat (m_rollover_count ?r) = unat (1 :: u64)" unfolding u r0 by simp
  then have "m_rollover_count ?r = 1" by (simp only: word_unat_eq_iff)
  with k c sz off show ?thesis by blast
qed

subsection \<open>The window after a second initialisation\<close>

lemma ex_reinit_eq:
  "ex_reinit = (header_defaults 0)
     \<lparr> sleep_interval_ms := 100, m_trbuf_alloc_sz := 1024, m_initialized := True,
       m_trbuf := 1, m_trbuf_addr := 4096, m_trbuf_sz := 512, m_wordcount_old := 64,
       m_use_circ_buf := True, m_circ_buf_cur_rate := 10240,
       calls := [AllocTraceBuf 1024, InitTS2MM 1024 4096 True,
                 SyncTraceBuf 1 0 512, ParseTraceData 512, ProcessTraceData [1],
                 EndProcessTraceData [], InitTS2MM 0 4096 False, ResetTS2MM, FreeTraceBuf 1,
                 AllocTraceBuf 1024, InitTS2MM 1024 4096 True] \<rparr>"
  by (simp add: ex_reinit_def read_trace_init_def init_s2mm_def read_trace_end_def reset_s2mm_def
      DeviceTraceOffload_ctor_def header_defaults_def ex_dev_s2mm_def ex_in_def ex_build_def
      read_trace_s2mm_def config_s2mm_reader_def Let_def)

text \<open>
  Claim C3 fails on an object that is initialised a second time. \<open>read_trace_init\<close> clears
  the two latches and leaves the window, the saved word count and the rollover count of
  the earlier session: the new session starts initialised, with no latch set, and with the
  old window end 512 and word count 64. When the device's counter has started again and
  stands at 32 (256 bytes), the first read cycle puts the window start at 512 and the
  window end at 256, and asks the device for a sync of \<open>2 ^ 64 - 256\<close> bytes.
\<close>

theorem reinit_window_start_exceeds_end:
  "m_initialized ex_reinit \<and> \<not> trbuf_offload_done ex_reinit \<and> \<not> m_trbuf_full ex_reinit
   \<and> m_trbuf_sz ex_reinit = 512 \<and> m_wordcount_old ex_reinit = 64
   \<and> m_trbuf_alloc_sz ex_reinit = 1024
   \<and> m_trbuf_offset (read_trace_s2mm ex_build (ex_in 32 (Some [2])) False ex_reinit) = 512
   \<and> m_trbuf_sz (read_trace_s2mm ex_build (ex_in 32 (Some [2])) False ex_reinit) = 256
   \<and> m_trbuf_sz (read_trace_s2mm ex_build (ex_in 32 (Some [2])) False ex_reinit)
       < m_trbuf_offset (read_trace_s2mm ex_build (ex_in 32 (Some [2])) False ex_reinit)
   \<and> calls (read_trace_s2mm ex_build (ex_in 32 (Some [2])) False ex_reinit) =
       calls ex_reinit @
         [SyncTraceBuf 1 512 18446744073709551360, ParseTraceData 18446744073709551360,
          ProcessTraceData [2]]"
  by (simp add: ex_reinit_eq header_defaults_def ex_in_def ex_build_def
      read_trace_s2mm_def config_s2mm_reader_def Let_def)

subsection \<open>The end of a single-pass session\<close>

lemma ex_single_full_eq:
  "ex_single_full = (header_defaults 0)
     \<lparr> sleep_interval_ms := 100, m_trbuf_alloc_sz := 1024, status := RUNNING,
       offload_thread := Some TRACE, m_initialized := True, m_trbuf := 1, m_trbuf_addr := 4096,
       m_trbuf_sz := 1024, m_wordcount_old := 128, m_trbuf_full := True,
       calls := [AllocTraceBuf 1024, InitTS2MM 1024 4096 False,
                 SyncTraceBuf 1 0 1024, ParseTraceData 1024, ProcessTraceData [1]] \<rparr>"
  by (simp add: ex_single_full_def read_trace_init_def init_s2mm_def start_offload_def
      DeviceTraceOffload_ctor_def header_defaults_def ex_dev_single_def ex_in_def ex_build_def
      read_trace_s2mm_def config_s2mm_reader_def Let_def)

lemma train_clock_fields:
  "status (train_clock b t s) = status s
   \<and> m_read_trace (train_clock b t s) = m_read_trace s
   \<and> m_wordcount_old (train_clock b t s) = m_wordcount_old s
   \<and> m_trbuf_sz (train_clock b t s) = m_trbuf_sz s
   \<and> m_trbuf_alloc_sz (train_clock b t s) = m_trbuf_alloc_sz s
   \<and> m_rollover_count (train_clock b t s) = m_rollover_count s
   \<and> trbuf_offload_done (train_clock b t s) = trbuf_offload_done s
   \<and> m_use_circ_buf (train_clock b t s) = m_use_circ_buf s
   \<and> filter is_data_transfer (calls (train_clock b t s)) = filter is_data_transfer (calls s)
   \<and> filter is_overrun_report (calls (train_clock b t s)) = filter is_overrun_report (calls s)"
  by (simp add: train_clock_def Let_def)

lemma offload_loop_stopped:
  "\<not> should_continue s \<Longrightarrow> offload_loop b dev ts s = Some s"
  by (cases ts) simp_all

lemma reset_s2mm_filters:
  "filter is_data_transfer (calls (reset_s2mm s)) = filter is_data_transfer (calls s)
   \<and> filter is_overrun_report (calls (reset_s2mm s)) = filter is_overrun_report (calls s)"
  by (simp add: reset_s2mm_def Let_def)

lemma read_trace_end_filters:
  "filter is_data_transfer (calls (read_trace_end dev s)) = filter is_data_transfer (calls s)
   \<and> filter is_overrun_report (calls (read_trace_end dev s)) = filter is_overrun_report (calls s)
   \<and> status (read_trace_end dev s) = status s"
  using reset_s2mm_filters [of "s\<lparr>m_trace_vector := [], calls := calls s @ [EndProcessTraceData []]\<rparr>"]
    reset_s2mm_keeps [of "s\<lparr>m_trace_vector := [], calls := calls s @ [EndProcessTraceData []]\<rparr>"]
  by (simp add: read_trace_end_def Let_def)

text \<open>
  Claim C9. In a running single-pass stream session whose window end is at the allocation
  size, a polling cycle that is accepted and finds no overrun advances the window start to
  the allocation size, latches "offload done" and requests the stop, without any transfer
  or report. The polling loop ends with that cycle, whatever further ticks there would be;
  the worker then makes its one forced read, which only stores the word count, finalises the
  logger and sets the status to \<open>STOPPED\<close>. From the cycle to the end of the worker no
  data is transferred and no overrun warning or marker is sent.
\<close>

theorem single_pass_done_ends_session:
  assumes "status s = RUNNING" and "m_read_trace s = Read_trace_s2mm" and "m_initialized s"
    and "\<not> m_use_circ_buf s" and "\<not> trbuf_offload_done s"
    and "m_trbuf_sz s = m_trbuf_alloc_sz s"
    and "\<not> skipped b (rd t) False s" and "\<not> overrun b (wordcount (rd t)) s"
  shows "(let s1 = (train_clock b (now t) s)
                     \<lparr>m_wordcount_old := wordcount (rd t), m_trbuf_offset := m_trbuf_alloc_sz s,
                      trbuf_offload_done := True, status := STOPPING\<rparr>;
              s2 = s1\<lparr>m_wordcount_old := wordcount final\<rparr>;
              s3 = offload_finished (read_trace_end dev s2)
          in call_read_trace b dev (rd t) False (train_clock b (now t) s) = Some s1
             \<and> offload_loop b dev (t # ts) s = Some s1
             \<and> call_read_trace b dev final True s1 = Some s2
             \<and> offload_device_continuous b dev (t # ts) final s = Some s3
             \<and> status s3 = STOPPED
             \<and> filter is_data_transfer (calls s3) = filter is_data_transfer (calls s)
             \<and> filter is_overrun_report (calls s3) = filter is_overrun_report (calls s))"
proof -
  let ?c = "train_clock b (now t) s"
  define s1 where "s1 = ?c\<lparr>m_wordcount_old := wordcount (rd t), m_trbuf_offset := m_trbuf_alloc_sz s,
                      trbuf_offload_done := True, status := STOPPING\<rparr>"
  define s2 where "s2 = s1\<lparr>m_wordcount_old := wordcount final\<rparr>"
  define s3 where "s3 = offload_finished (read_trace_end dev s2)"
  note tc = train_clock_fields [of b "now t" s]
  have h: "\<not> skipped b (rd t) False ?c" "\<not> trbuf_offload_done ?c"
    "\<not> overrun b (wordcount (rd t)) ?c" "m_trbuf_sz ?c = m_trbuf_alloc_sz ?c" "\<not> m_use_circ_buf ?c"
    using assms tc by (simp_all add: skipped_def overrun_def)
  have "read_trace_s2mm b (rd t) False ?c = s1"
    using read_trace_s2mm_single_pass_done [OF h] assms(1,6) tc
    by (simp add: s1_def stop_offload_def)
  then have a: "call_read_trace b dev (rd t) False ?c = Some s1"
    using assms(2) tc by (simp add: call_read_trace_def)
  have st1: "status s1 = STOPPING" and d1: "trbuf_offload_done s1"
    and r1: "m_read_trace s1 = Read_trace_s2mm"
    using assms(2) tc by (simp_all add: s1_def)
  have stop1: "stop_offload s1 = s1" using st1 by (simp add: stop_offload_def s1_def)
  have nc: "\<not> should_continue s1" using st1 by (simp add: should_continue_def)
  have l: "offload_loop b dev (t # ts) s = Some s1"
    using assms(1) a stop1 offload_loop_stopped [OF nc, of b dev ts]
    by (simp add: should_continue_def)
  have "read_trace_s2mm b final True s1 = s2"
    using d1 by (simp add: read_trace_s2mm_done skipped_def s2_def)
  then have f: "call_read_trace b dev final True s1 = Some s2"
    using r1 by (simp add: call_read_trace_def)
  have w: "offload_device_continuous b dev (t # ts) final s = Some s3"
    using assms(3) l f by (simp add: offload_device_continuous_def s3_def)
  have c2: "calls s2 = calls ?c" and st2: "status s2 = STOPPING"
    by (simp_all add: s2_def s1_def)
  note e = read_trace_end_filters [of dev s2]
  have st3: "status s3 = STOPPED" by (simp add: s3_def offload_finished_def)
  have c3: "calls s3 = calls (read_trace_end dev s2)" by (simp add: s3_def offload_finished_def)
  have "filter is_data_transfer (calls s3) = filter is_data_transfer (calls s)"
    and "filter is_overrun_report (calls s3) = filter is_overrun_report (calls s)"
    unfolding c3 using e tc by (simp_all add: c2)
  with a l f w st3 show ?thesis
    unfolding Let_def s1_def [symmetric] s2_def [symmetric] s3_def [symmetric] by blast
qed

text \<open>
  The full single-pass buffer, then a tick at word count 200: the loop ends without using
  its second tick, and the worker's calls after the tick are the clock training and the
  teardown only.
\<close>

theorem single_pass_done_ends_session_witness:
  "offload_device_continuous ex_build ex_dev_single
       [\<lparr>now = 0, rd = ex_in 200 (Some [2]), stop_requested = False\<rparr>,
        \<lparr>now = 100000000, rd = ex_in 300 (Some [3]), stop_requested = False\<rparr>]
       (ex_in 300 (Some [4])) ex_single_full
     = Some (ex_single_full
         \<lparr>m_wordcount_old := 300, m_trbuf_offset := 1024, trbuf_offload_done := True,
          status := STOPPED, m_force_clk_train := False, m_initialized := False, m_trbuf := 0,
          calls := calls ex_single_full @
                     [ClockTraining True, EndProcessTraceData [], ResetTS2MM, FreeTraceBuf 1]\<rparr>)"
proof -
  have h: "status ex_single_full = RUNNING" "m_read_trace ex_single_full = Read_trace_s2mm"
    "m_initialized ex_single_full" "\<not> m_use_circ_buf ex_single_full"
    "\<not> trbuf_offload_done ex_single_full"
    "m_trbuf_sz ex_single_full = m_trbuf_alloc_sz ex_single_full"
    "\<not> skipped ex_build (rd \<lparr>now = 0, rd = ex_in 200 (Some [2]), stop_requested = False\<rparr>)
         False ex_single_full"
    "\<not> overrun ex_build (wordcount (rd \<lparr>now = 0, rd = ex_in 200 (Some [2]), stop_requested = False\<rparr>))
         ex_single_full"
    by (simp_all add: skipped_def overrun_def ex_single_full_eq header_defaults_def ex_in_def
        ex_build_def)
  from single_pass_done_ends_session [OF h, where ?dev = ex_dev_single
      and ?ts = "[\<lparr>now = 100000000, rd = ex_in 300 (Some [3]), stop_requested = False\<rparr>]"
      and ?final = "ex_in 300 (Some [4])"]
  have "offload_device_continuous ex_build ex_dev_single
       [\<lparr>now = 0, rd = ex_in 200 (Some [2]), stop_requested = False\<rparr>,
        \<lparr>now = 100000000, rd = ex_in 300 (Some [3]), stop_requested = False\<rparr>]
       (ex_in 300 (Some [4])) ex_single_full
     = Some (offload_finished (read_trace_end ex_dev_single
         ((train_clock ex_build 0 ex_single_full)
             \<lparr>m_wordcount_old := wordcount (ex_in 200 (Some [2])),
              m_trbuf_offset := m_trbuf_alloc_sz ex_single_full,
              trbuf_offload_done := True, status := STOPPING,
              m_wordcount_old := wordcount (ex_in 300 (Some [4]))\<rparr>)))"
    by (simp add: Let_def)
  also have "\<dots> = Some (ex_single_full
         \<lparr>m_wordcount_old := 300, m_trbuf_offset := 1024, trbuf_offload_done := True,
          status := STOPPED, m_force_clk_train := False, m_initialized := False, m_trbuf := 0,
          calls := calls ex_single_full @
                     [ClockTraining True, EndProcessTraceData [], ResetTS2MM, FreeTraceBuf 1]\<rparr>)"
    by (simp add: ex_single_full_eq header_defaults_def ex_in_def ex_build_def ex_dev_single_def
        train_clock_def duration_cast_ms_def offload_finished_def read_trace_end_def
        reset_s2mm_def Let_def)
  finally show ?thesis .
qed

end
